theory Spec2Isabelle
  imports Main "HOL-Library.Char_ord" "HOL-Library.List_Lexorder" "HOL-Library.Code_Target_Nat"
begin

section \<open>Data model (models/graph.go)\<close>

text \<open>
  Identifiers are Go strings, that is byte sequences; comparison of Go strings and of
  Badger keys is bytewise lexicographic, which is the order of \<open>char list\<close> given by
  \<open>Char_ord\<close> and \<open>List_Lexorder\<close>.
\<close>

type_synonym NodeType = string
type_synonym EdgeType = string
type_synonym NodeID = string
type_synonym EdgeID = string
type_synonym GraphID = string

text \<open>
  \<open>time.Time\<close>, kept as a UTC civil timestamp with its nanoseconds.
  \<open>time_fields\<close> lists the fields from the most to the least significant one, so that
  the lexicographic order of the lists is the order of the instants. \<open>unix_fields\<close>
  lists the fields of the whole second the instant lies in, ordered as the values of
  \<open>t.Unix()\<close> are.
\<close>

record Time =
  year :: nat
  month :: nat
  day :: nat
  hour :: nat
  minute :: nat
  second :: nat
  nanosecond :: nat

definition time_fields :: "Time \<Rightarrow> nat list" where
  "time_fields t = [year t, month t, day t, hour t, minute t, second t, nanosecond t]"

definition unix_fields :: "Time \<Rightarrow> nat list" where
  "unix_fields t = [year t, month t, day t, hour t, minute t, second t]"

definition Before :: "Time \<Rightarrow> Time \<Rightarrow> bool" where
  "Before a b = (time_fields a < time_fields b)"

definition digit :: "nat \<Rightarrow> char" where
  "digit n = ''0123456789'' ! (n mod 10)"

text \<open>The decimal digits of a number, as \<open>fmt.Sprintf("%d", n)\<close> prints them.\<close>

function itoa :: "nat \<Rightarrow> string" where
  "itoa n = (if n < 10 then [digit n] else itoa (n div 10) @ [digit n])"
  by pat_completeness auto
termination
  by (relation "measure id") auto

declare itoa.simps [simp del]

text \<open>
  A field of a time layout padded with zeros to two and to four digits; a year of more
  than four digits is printed in full.
\<close>

definition pad2 :: "nat \<Rightarrow> string" where
  "pad2 n = [digit (n div 10), digit n]"

definition pad4 :: "nat \<Rightarrow> string" where
  "pad4 n =
     (if n < 10000 then [digit (n div 1000), digit (n div 100), digit (n div 10), digit n]
      else itoa n)"

text \<open>
  \<open>t.UTC().Format(time.RFC3339)\<close>: the layout \<open>2006-01-02T15:04:05Z\<close>, which
  leaves the nanoseconds out.
\<close>

definition Format_RFC3339 :: "Time \<Rightarrow> string" where
  "Format_RFC3339 t =
     pad4 (year t) @ ''-'' @ pad2 (month t) @ ''-'' @ pad2 (day t) @ ''T'' @
     pad2 (hour t) @ '':'' @ pad2 (minute t) @ '':'' @ pad2 (second t) @ ''Z''"

text \<open>
  Attribute values. The model covers the values that \<open>ToJSON\<close> followed by
  \<open>FromJSON\<close> gives back as they were: strings, booleans and \<open>nil\<close>. Numbers,
  which \<open>encoding/json\<close> reads back as \<open>float64\<close> whatever their Go type was, and
  nested values are outside it.
\<close>

datatype json = JString string | JBool bool | JNull

type_synonym Attributes = "(string \<times> json) list"

record Node =
  ID :: NodeID
  Type :: NodeType
  Attributes :: Attributes
  CreatedAt :: Time
  UpdatedAt :: Time
  ExpiresAt :: "Time option"

record Edge =
  ID :: EdgeID
  Type :: EdgeType
  FromNodeID :: NodeID
  ToNodeID :: NodeID
  Attributes :: Attributes
  CreatedAt :: Time
  UpdatedAt :: Time
  ExpiresAt :: "Time option"

record Graph =
  ID :: GraphID
  Name :: string
  Description :: string
  CreatedAt :: Time
  UpdatedAt :: Time

section \<open>Errors\<close>

text \<open>
  Go errors as values: \<open>Errorf\<close> is \<open>fmt.Errorf\<close> with the formatted message,
  \<open>Wrap\<close> is \<open>fmt.Errorf("...: %w", err)\<close>, \<open>ErrKeyNotFound\<close> is Badger's
  sentinel. \<open>Error\<close> is the \<open>Error()\<close> method, used where the source formats an
  error with \<open>%v\<close>.
\<close>

datatype error = Errorf string | Wrap string error | ErrKeyNotFound

fun Error :: "error \<Rightarrow> string" where
  "Error (Errorf s) = s"
| "Error (Wrap s e) = s @ Error e"
| "Error ErrKeyNotFound = ''Key not found''"

section \<open>The ordered key-value store\<close>

text \<open>
  The Badger database is not part of the repository; it is modelled by its contract: a
  list of entries in ascending key order, each with a value and an optional expiry time
  (the engine-level TTL of \<open>Entry.WithTTL\<close>). Badger keeps the expiry time in whole
  Unix seconds, \<open>time.Now().Add(ttl).Unix()\<close>, and an entry is invisible to \<open>Get\<close>
  and to iterators once that second is not after the second of the current time. A stored value is the JSON of a
  node, an edge or a graph, or the raw bytes of an identifier; \<open>ToJSON\<close> followed by
  \<open>FromJSON\<close> gives the record back, and \<open>FromJSON\<close> on a value of another kind is
  a deserialization failure.
\<close>

datatype Value = NodeJSON Node | EdgeJSON Edge | GraphJSON Graph | Bytes string

type_synonym Entry = "string \<times> Value \<times> Time option"

type_synonym KVS = "Entry list"

definition expired :: "Time \<Rightarrow> Time option \<Rightarrow> bool" where
  "expired now ex = (case ex of None \<Rightarrow> False | Some t \<Rightarrow> \<not> unix_fields now < unix_fields t)"

definition live :: "Time \<Rightarrow> KVS \<Rightarrow> KVS" where
  "live now st = filter (\<lambda>(k, v, ex). \<not> expired now ex) st"

definition HasPrefix :: "string \<Rightarrow> string \<Rightarrow> bool" where
  "HasPrefix s p = (take (length p) s = p)"

text \<open>\<open>txn.Get\<close>: the value of a key, \<open>ErrKeyNotFound\<close> when absent or expired.\<close>

definition txn_Get :: "KVS \<Rightarrow> Time \<Rightarrow> string \<Rightarrow> error + Value" where
  "txn_Get st now k =
     (case map_of (live now st) k of
        None \<Rightarrow> Inl ErrKeyNotFound
      | Some (v, ex) \<Rightarrow> Inr v)"

text \<open>\<open>txn.SetEntry\<close>: insert in key order, replacing the entry of the same key.\<close>

fun put :: "string \<Rightarrow> Value \<times> Time option \<Rightarrow> KVS \<Rightarrow> KVS" where
  "put k e [] = [(k, e)]"
| "put k e ((k', e') # rest) =
     (if k < k' then (k, e) # (k', e') # rest
      else if k = k' then (k, e) # rest
      else (k', e') # put k e rest)"

definition txn_Set :: "KVS \<Rightarrow> string \<Rightarrow> Value \<Rightarrow> KVS" where
  "txn_Set st k v = put k (v, None) st"

definition txn_SetWithTTL :: "KVS \<Rightarrow> string \<Rightarrow> Value \<Rightarrow> Time \<Rightarrow> KVS" where
  "txn_SetWithTTL st k v ex = put k (v, Some ex) st"

definition txn_Delete :: "KVS \<Rightarrow> string \<Rightarrow> KVS" where
  "txn_Delete st k = filter (\<lambda>(k', e). k' \<noteq> k) st"

text \<open>
  An iterator run as \<open>for it.Seek(prefix); it.ValidForPrefix(prefix); it.Next()\<close>:
  \<open>Seek\<close> moves to the first visible key that is not below the prefix, and the loop
  runs while the key has the prefix. The result is the list of (key, value) pairs the
  loop body sees, in order. Inside a read-write transaction the iterator is a snapshot
  taken when it is created: writes of the loop body do not change what it yields.
\<close>

definition Seek :: "Time \<Rightarrow> KVS \<Rightarrow> string \<Rightarrow> KVS" where
  "Seek now st prefix = dropWhile (\<lambda>(k, e). k < prefix) (live now st)"

definition iterate_prefix :: "KVS \<Rightarrow> Time \<Rightarrow> string \<Rightarrow> (string \<times> Value) list" where
  "iterate_prefix st now prefix =
     map (\<lambda>(k, v, ex). (k, v)) (takeWhile (\<lambda>(k, e). HasPrefix k prefix) (Seek now st prefix))"


text \<open>
  The bytes of a stored value, as a callback \<open>func(val []byte)\<close> receives them. Index
  entries hold an identifier. For a JSON value the text is abbreviated to the
  identifying fields; no index entry written by the engine holds one.
\<close>

fun bytes_of :: "Value \<Rightarrow> string" where
  "bytes_of (Bytes s) = s"
| "bytes_of (NodeJSON n) = ''{\"id\":\"'' @ Node.ID n @ ''\",\"type\":\"'' @ Node.Type n @ ''\"}''"
| "bytes_of (EdgeJSON e) = ''{\"id\":\"'' @ Edge.ID e @ ''\",\"type\":\"'' @ Edge.Type e @
     ''\",\"from_node_id\":\"'' @ FromNodeID e @ ''\",\"to_node_id\":\"'' @ ToNodeID e @ ''\"}''"
| "bytes_of (GraphJSON g) = ''{\"id\":\"'' @ Graph.ID g @ ''\",\"name\":\"'' @ Name g @ ''\"}''"

definition Node_FromJSON :: "Value \<Rightarrow> error + Node" where
  "Node_FromJSON v = (case v of NodeJSON n \<Rightarrow> Inr n | _ \<Rightarrow> Inl (Errorf ''json: cannot unmarshal into Node''))"

definition Edge_FromJSON :: "Value \<Rightarrow> error + Edge" where
  "Edge_FromJSON v = (case v of EdgeJSON e \<Rightarrow> Inr e | _ \<Rightarrow> Inl (Errorf ''json: cannot unmarshal into Edge''))"

definition Graph_FromJSON :: "Value \<Rightarrow> error + Graph" where
  "Graph_FromJSON v = (case v of GraphJSON g \<Rightarrow> Inr g | _ \<Rightarrow> Inl (Errorf ''json: cannot unmarshal into Graph''))"

section \<open>Key schema (utils/encoding.go)\<close>

definition GraphPrefix :: string where "GraphPrefix = ''g:''"
definition NodePrefix :: string where "NodePrefix = ''n:''"
definition EdgePrefix :: string where "EdgePrefix = ''e:''"
definition NodeIndexPrefix :: string where "NodeIndexPrefix = ''ni:''"
definition TypeIndexPrefix :: string where "TypeIndexPrefix = ''ti:''"
definition ExpiryIndexPrefix :: string where "ExpiryIndexPrefix = ''xi:''"

definition EncodeGraphKey :: "GraphID \<Rightarrow> string" where
  "EncodeGraphKey graphID = GraphPrefix @ graphID"

definition EncodeNodeKey :: "GraphID \<Rightarrow> NodeID \<Rightarrow> string" where
  "EncodeNodeKey graphID nodeID = NodePrefix @ graphID @ '':'' @ nodeID"

definition EncodeEdgeKey :: "GraphID \<Rightarrow> EdgeID \<Rightarrow> string" where
  "EncodeEdgeKey graphID edgeID = EdgePrefix @ graphID @ '':'' @ edgeID"

definition EncodeNodeTypeIndexKey :: "GraphID \<Rightarrow> NodeType \<Rightarrow> NodeID \<Rightarrow> string" where
  "EncodeNodeTypeIndexKey graphID nodeType nodeID =
     TypeIndexPrefix @ ''n:'' @ graphID @ '':'' @ nodeType @ '':'' @ nodeID"

definition EncodeEdgeTypeIndexKey :: "GraphID \<Rightarrow> EdgeType \<Rightarrow> EdgeID \<Rightarrow> string" where
  "EncodeEdgeTypeIndexKey graphID edgeType edgeID =
     TypeIndexPrefix @ ''e:'' @ graphID @ '':'' @ edgeType @ '':'' @ edgeID"

definition EncodeNodeOutEdgeIndexKey :: "GraphID \<Rightarrow> NodeID \<Rightarrow> EdgeID \<Rightarrow> string" where
  "EncodeNodeOutEdgeIndexKey graphID nodeID edgeID =
     NodeIndexPrefix @ ''out:'' @ graphID @ '':'' @ nodeID @ '':'' @ edgeID"

definition EncodeNodeInEdgeIndexKey :: "GraphID \<Rightarrow> NodeID \<Rightarrow> EdgeID \<Rightarrow> string" where
  "EncodeNodeInEdgeIndexKey graphID nodeID edgeID =
     NodeIndexPrefix @ ''in:'' @ graphID @ '':'' @ nodeID @ '':'' @ edgeID"

text \<open>\<open>strings.Split(s, sep)\<close> for a one-byte separator: never an empty result.\<close>

fun Split :: "string \<Rightarrow> char \<Rightarrow> string list" where
  "Split [] sep = [[]]"
| "Split (c # cs) sep =
     (if c = sep then [] # Split cs sep
      else (case Split cs sep of [] \<Rightarrow> [[c]] | p # ps \<Rightarrow> (c # p) # ps))"

definition TrimPrefix :: "string \<Rightarrow> string \<Rightarrow> string" where
  "TrimPrefix s p = (if HasPrefix s p then drop (length p) s else s)"

text \<open>\<open>strings.LastIndex(s, sep)\<close> for a one-byte separator: \<open>-1\<close> when absent.\<close>

definition LastIndex :: "string \<Rightarrow> char \<Rightarrow> int" where
  "LastIndex s c =
     (if c \<in> set s then int (length s) - 1 - int (length (takeWhile (\<lambda>x. x \<noteq> c) (rev s)))
      else - 1)"

definition DecodeNodeKey :: "string \<Rightarrow> GraphID \<times> NodeID" where
  "DecodeNodeKey key =
     (if HasPrefix key NodePrefix then
        (let parts = Split (drop (length NodePrefix) key) CHR '':''
         in if length parts = 2 then (parts ! 0, parts ! 1) else ('''', ''''))
      else ('''', ''''))"

definition DecodeEdgeKey :: "string \<Rightarrow> GraphID \<times> EdgeID" where
  "DecodeEdgeKey key =
     (if HasPrefix key EdgePrefix then
        (let parts = Split (drop (length EdgePrefix) key) CHR '':''
         in if length parts = 2 then (parts ! 0, parts ! 1) else ('''', ''''))
      else ('''', ''''))"

definition CreateNodeIteratorPrefix :: "GraphID \<Rightarrow> string" where
  "CreateNodeIteratorPrefix graphID = NodePrefix @ graphID @ '':''"

definition CreateEdgeIteratorPrefix :: "GraphID \<Rightarrow> string" where
  "CreateEdgeIteratorPrefix graphID = EdgePrefix @ graphID @ '':''"

definition CreateTypeIteratorPrefix :: "GraphID \<Rightarrow> string \<Rightarrow> string \<Rightarrow> string" where
  "CreateTypeIteratorPrefix graphID entityType typeValue =
     TypeIndexPrefix @ entityType @ '':'' @ graphID @ '':'' @ typeValue @ '':''"

definition EncodeExpiryIndexKey :: "GraphID \<Rightarrow> NodeID \<Rightarrow> Time \<Rightarrow> string" where
  "EncodeExpiryIndexKey graphID nodeID expiresAt =
     ExpiryIndexPrefix @ Format_RFC3339 expiresAt @ '':'' @ graphID @ '':'' @ nodeID"

definition DecodeExpiryIndexKey :: "string \<Rightarrow> GraphID \<times> NodeID" where
  "DecodeExpiryIndexKey key =
     (let keyStr = TrimPrefix key ExpiryIndexPrefix;
          lastColon = LastIndex keyStr CHR '':''
      in if lastColon = - 1 then ('''', '''')
         else
           (let nodeID = drop (nat (lastColon + 1)) keyStr;
                remaining = take (nat lastColon) keyStr;
                secondLastColon = LastIndex remaining CHR '':''
            in if secondLastColon = - 1 then ('''', '''')
               else (drop (nat (secondLastColon + 1)) remaining, nodeID)))"

definition CreateExpiryIteratorPrefix :: string where
  "CreateExpiryIteratorPrefix = ExpiryIndexPrefix"

section \<open>Storage engine (storage/badger.go, node.go, edge.go, graph.go)\<close>

text \<open>
  A \<open>BadgerTransaction\<close> is the state of the store as the transaction sees it. The
  helpers \<open>t.set\<close>, \<open>t.setWithTTL\<close> and \<open>t.delete\<close> are \<open>txn_Set\<close>,
  \<open>txn_SetWithTTL\<close> and \<open>txn_Delete\<close>; they and \<open>ToJSON\<close> do not fail here,
  so the source's branches for their errors have no counterpart. A mutating method
  returns the transaction state it leaves behind together with its error, since a caller
  that ignores the error (as \<open>DeleteGraph\<close> does) keeps the writes made so far. Every
  method that reads takes the current time \<open>now\<close>.
\<close>

type_synonym BadgerTransaction = KVS

definition t_get :: "BadgerTransaction \<Rightarrow> Time \<Rightarrow> string \<Rightarrow> error + Value" where
  "t_get t now key = txn_Get t now key"

definition BadgerTransaction_GetNode ::
    "BadgerTransaction \<Rightarrow> Time \<Rightarrow> GraphID \<Rightarrow> NodeID \<Rightarrow> error + Node" where
  "BadgerTransaction_GetNode t now graphID nodeID =
     (case t_get t now (EncodeNodeKey graphID nodeID) of
        Inl err \<Rightarrow>
          if err = ErrKeyNotFound then Inl (Errorf (''node not found: '' @ nodeID))
          else Inl (Wrap ''failed to get node: '' err)
      | Inr nodeValue \<Rightarrow>
          (case Node_FromJSON nodeValue of
             Inl err \<Rightarrow> Inl (Wrap ''failed to deserialize node: '' err)
           | Inr node \<Rightarrow> Inr node))"

definition BadgerTransaction_GetEdge ::
    "BadgerTransaction \<Rightarrow> Time \<Rightarrow> GraphID \<Rightarrow> EdgeID \<Rightarrow> error + Edge" where
  "BadgerTransaction_GetEdge t now graphID edgeID =
     (case t_get t now (EncodeEdgeKey graphID edgeID) of
        Inl err \<Rightarrow>
          if err = ErrKeyNotFound then Inl (Errorf (''edge not found: '' @ edgeID))
          else Inl (Wrap ''failed to get edge: '' err)
      | Inr edgeValue \<Rightarrow>
          (case Edge_FromJSON edgeValue of
             Inl err \<Rightarrow> Inl (Wrap ''failed to deserialize edge: '' err)
           | Inr edge \<Rightarrow> Inr edge))"

definition BadgerTransaction_CreateNode ::
    "BadgerTransaction \<Rightarrow> GraphID \<Rightarrow> Node \<Rightarrow> BadgerTransaction \<times> error option" where
  "BadgerTransaction_CreateNode t graphID node =
     (let t1 = txn_Set t (EncodeNodeKey graphID (Node.ID node)) (NodeJSON node);
          t2 = txn_Set t1 (EncodeNodeTypeIndexKey graphID (Node.Type node) (Node.ID node))
                 (Bytes (Node.ID node));
          t3 = (case Node.ExpiresAt node of
                  None \<Rightarrow> t2
                | Some ex \<Rightarrow>
                    txn_Set t2 (EncodeExpiryIndexKey graphID (Node.ID node) ex)
                      (Bytes (Node.ID node)))
      in (t3, None))"

definition BadgerTransaction_UpdateNode ::
    "BadgerTransaction \<Rightarrow> Time \<Rightarrow> GraphID \<Rightarrow> Node \<Rightarrow> BadgerTransaction \<times> error option" where
  "BadgerTransaction_UpdateNode t now graphID node =
     (case BadgerTransaction_GetNode t now graphID (Node.ID node) of
        Inl err \<Rightarrow> (t, Some (Wrap ''node does not exist: '' err))
      | Inr existingNode \<Rightarrow>
          (let t1 = (if Node.Type existingNode \<noteq> Node.Type node then
                       txn_Set
                         (txn_Delete t
                            (EncodeNodeTypeIndexKey graphID (Node.Type existingNode) (Node.ID node)))
                         (EncodeNodeTypeIndexKey graphID (Node.Type node) (Node.ID node))
                         (Bytes (Node.ID node))
                     else t);
               t2 = (case Node.ExpiresAt existingNode of
                       Some old \<Rightarrow>
                         if Node.ExpiresAt node = None \<or> Node.ExpiresAt node \<noteq> Some old then
                           txn_Delete t1 (EncodeExpiryIndexKey graphID (Node.ID existingNode) old)
                         else t1
                     | None \<Rightarrow> t1);
               t3 = (case Node.ExpiresAt node of
                       Some new \<Rightarrow>
                         if Node.ExpiresAt existingNode = None
                            \<or> Node.ExpiresAt existingNode \<noteq> Some new then
                           txn_Set t2 (EncodeExpiryIndexKey graphID (Node.ID node) new)
                             (Bytes (Node.ID node))
                         else t2
                     | None \<Rightarrow> t2)
           in (txn_Set t3 (EncodeNodeKey graphID (Node.ID node)) (NodeJSON node), None)))"

definition BadgerTransaction_DeleteEdge ::
    "BadgerTransaction \<Rightarrow> Time \<Rightarrow> GraphID \<Rightarrow> EdgeID \<Rightarrow> BadgerTransaction \<times> error option" where
  "BadgerTransaction_DeleteEdge t now graphID edgeID =
     (case BadgerTransaction_GetEdge t now graphID edgeID of
        Inl err \<Rightarrow> (t, Some (Wrap ''edge does not exist: '' err))
      | Inr edge \<Rightarrow>
          (let t1 = txn_Delete t (EncodeEdgeKey graphID edgeID);
               t2 = txn_Delete t1 (EncodeEdgeTypeIndexKey graphID (Edge.Type edge) edgeID);
               t3 = txn_Delete t2 (EncodeNodeOutEdgeIndexKey graphID (FromNodeID edge) edgeID);
               t4 = txn_Delete t3 (EncodeNodeInEdgeIndexKey graphID (ToNodeID edge) edgeID)
           in (t4, None)))"

text \<open>
  The two cascade loops of \<open>DeleteNode\<close>: each item of the iterator's snapshot names an
  edge by its value; the first failing \<open>DeleteEdge\<close> ends the loop with its error,
  wrapped with the message \<open>msg\<close> of the loop.
\<close>

fun delete_edges_loop ::
    "BadgerTransaction \<Rightarrow> Time \<Rightarrow> GraphID \<Rightarrow> string \<Rightarrow> (string \<times> Value) list
      \<Rightarrow> BadgerTransaction \<times> error option" where
  "delete_edges_loop t now graphID msg [] = (t, None)"
| "delete_edges_loop t now graphID msg ((key, val) # items) =
     (case BadgerTransaction_DeleteEdge t now graphID (bytes_of val) of
        (t', Some err) \<Rightarrow> (t', Some (Wrap msg err))
      | (t', None) \<Rightarrow> delete_edges_loop t' now graphID msg items)"

definition BadgerTransaction_DeleteNode ::
    "BadgerTransaction \<Rightarrow> Time \<Rightarrow> GraphID \<Rightarrow> NodeID \<Rightarrow> BadgerTransaction \<times> error option" where
  "BadgerTransaction_DeleteNode t now graphID nodeID =
     (case BadgerTransaction_GetNode t now graphID nodeID of
        Inl err \<Rightarrow> (t, Some (Wrap ''node does not exist: '' err))
      | Inr node \<Rightarrow>
          (let t1 = txn_Delete t (EncodeNodeKey graphID nodeID);
               t2 = txn_Delete t1 (EncodeNodeTypeIndexKey graphID (Node.Type node) nodeID);
               t3 = (case Node.ExpiresAt node of
                       None \<Rightarrow> t2
                     | Some ex \<Rightarrow> txn_Delete t2 (EncodeExpiryIndexKey graphID (Node.ID node) ex));
               outgoingPrefix = NodeIndexPrefix @ ''out:'' @ graphID @ '':'' @ nodeID @ '':''
           in case delete_edges_loop t3 now graphID
                     ''failed to delete outgoing edge during node deletion: ''
                     (iterate_prefix t3 now outgoingPrefix) of
                (t4, Some err) \<Rightarrow> (t4, Some err)
              | (t4, None) \<Rightarrow>
                  (let incomingPrefix = NodeIndexPrefix @ ''in:'' @ graphID @ '':'' @ nodeID @ '':''
                   in delete_edges_loop t4 now graphID
                        ''failed to delete incoming edge during node deletion: ''
                        (iterate_prefix t4 now incomingPrefix))))"

text \<open>
  \<open>CreateEdge\<close>. \<open>time.Until(*edge.ExpiresAt) > 0\<close> is \<open>Before now ex\<close>, and the entry
  written with that TTL expires in the second of \<open>ex\<close>. Only the edge record carries
  the TTL.
\<close>

definition BadgerTransaction_CreateEdge ::
    "BadgerTransaction \<Rightarrow> Time \<Rightarrow> GraphID \<Rightarrow> Edge \<Rightarrow> BadgerTransaction \<times> error option" where
  "BadgerTransaction_CreateEdge t now graphID edge =
     (case BadgerTransaction_GetNode t now graphID (FromNodeID edge) of
        Inl err \<Rightarrow> (t, Some (Wrap ''source node does not exist: '' err))
      | Inr fromNode \<Rightarrow>
          (case BadgerTransaction_GetNode t now graphID (ToNodeID edge) of
             Inl err \<Rightarrow> (t, Some (Wrap ''target node does not exist: '' err))
           | Inr toNode \<Rightarrow>
               (let edgeKey = EncodeEdgeKey graphID (Edge.ID edge);
                    stored = (case Edge.ExpiresAt edge of
                                Some ex \<Rightarrow>
                                  if Before now ex then Some (txn_SetWithTTL t edgeKey (EdgeJSON edge) ex)
                                  else None
                              | None \<Rightarrow> Some (txn_Set t edgeKey (EdgeJSON edge)))
                in case stored of
                     None \<Rightarrow> (t, None)
                   | Some t1 \<Rightarrow>
                       (let t2 = txn_Set t1 (EncodeEdgeTypeIndexKey graphID (Edge.Type edge) (Edge.ID edge))
                                   (Bytes (Edge.ID edge));
                            t3 = txn_Set t2 (EncodeNodeOutEdgeIndexKey graphID (FromNodeID edge) (Edge.ID edge))
                                   (Bytes (Edge.ID edge));
                            t4 = txn_Set t3 (EncodeNodeInEdgeIndexKey graphID (ToNodeID edge) (Edge.ID edge))
                                   (Bytes (Edge.ID edge))
                        in (t4, None)))))"

text \<open>
  The engine holds the database handle, \<open>nil\<close> until \<open>Open\<close>. \<open>db.Update\<close> runs a
  function on the transaction and commits its writes when it returns no error; on an
  error the transaction is discarded and the store stays as it was. \<open>db.View\<close> is a
  read of the store.
\<close>

record BadgerEngine =
  db :: "KVS option"

definition not_opened :: error where
  "not_opened = Errorf ''database not opened''"

definition Update ::
    "KVS \<Rightarrow> (BadgerTransaction \<Rightarrow> BadgerTransaction \<times> error option) \<Rightarrow> KVS \<times> error option" where
  "Update st fn = (case fn st of (t, None) \<Rightarrow> (t, None) | (t, Some err) \<Rightarrow> (st, Some err))"

definition engine_update ::
    "BadgerEngine \<Rightarrow> (BadgerTransaction \<Rightarrow> BadgerTransaction \<times> error option)
      \<Rightarrow> BadgerEngine \<times> error option" where
  "engine_update e fn =
     (case db e of
        None \<Rightarrow> (e, Some not_opened)
      | Some st \<Rightarrow> (case Update st fn of (st', err) \<Rightarrow> (e\<lparr>db := Some st'\<rparr>, err)))"

definition BadgerEngine_CreateNode ::
    "BadgerEngine \<Rightarrow> GraphID \<Rightarrow> Node \<Rightarrow> BadgerEngine \<times> error option" where
  "BadgerEngine_CreateNode e graphID node =
     engine_update e (\<lambda>tx. BadgerTransaction_CreateNode tx graphID node)"

definition BadgerEngine_UpdateNode ::
    "BadgerEngine \<Rightarrow> Time \<Rightarrow> GraphID \<Rightarrow> Node \<Rightarrow> BadgerEngine \<times> error option" where
  "BadgerEngine_UpdateNode e now graphID node =
     engine_update e (\<lambda>tx. BadgerTransaction_UpdateNode tx now graphID node)"

definition BadgerEngine_DeleteNode ::
    "BadgerEngine \<Rightarrow> Time \<Rightarrow> GraphID \<Rightarrow> NodeID \<Rightarrow> BadgerEngine \<times> error option" where
  "BadgerEngine_DeleteNode e now graphID nodeID =
     engine_update e (\<lambda>tx. BadgerTransaction_DeleteNode tx now graphID nodeID)"

definition BadgerEngine_CreateEdge ::
    "BadgerEngine \<Rightarrow> Time \<Rightarrow> GraphID \<Rightarrow> Edge \<Rightarrow> BadgerEngine \<times> error option" where
  "BadgerEngine_CreateEdge e now graphID edge =
     engine_update e (\<lambda>tx. BadgerTransaction_CreateEdge tx now graphID edge)"

definition BadgerEngine_DeleteEdge ::
    "BadgerEngine \<Rightarrow> Time \<Rightarrow> GraphID \<Rightarrow> EdgeID \<Rightarrow> BadgerEngine \<times> error option" where
  "BadgerEngine_DeleteEdge e now graphID edgeID =
     engine_update e (\<lambda>tx. BadgerTransaction_DeleteEdge tx now graphID edgeID)"

definition BadgerEngine_GetNode ::
    "BadgerEngine \<Rightarrow> Time \<Rightarrow> GraphID \<Rightarrow> NodeID \<Rightarrow> error + Node" where
  "BadgerEngine_GetNode e now graphID nodeID =
     (case db e of
        None \<Rightarrow> Inl not_opened
      | Some st \<Rightarrow> BadgerTransaction_GetNode st now graphID nodeID)"

definition BadgerEngine_GetEdge ::
    "BadgerEngine \<Rightarrow> Time \<Rightarrow> GraphID \<Rightarrow> EdgeID \<Rightarrow> error + Edge" where
  "BadgerEngine_GetEdge e now graphID edgeID =
     (case db e of
        None \<Rightarrow> Inl not_opened
      | Some st \<Rightarrow> BadgerTransaction_GetEdge st now graphID edgeID)"

text \<open>
  \<open>iterateWithPrefix\<close>: the callback is applied to every item under the prefix and to
  the value accumulated so far (the variable the Go closure appends to); its first error
  ends the iteration.
\<close>

fun iterate_loop ::
    "(string \<times> Value) list \<Rightarrow> (string \<Rightarrow> Value \<Rightarrow> 'a \<Rightarrow> error + 'a) \<Rightarrow> 'a \<Rightarrow> error + 'a" where
  "iterate_loop [] fn acc = Inr acc"
| "iterate_loop ((key, val) # items) fn acc =
     (case fn key val acc of
        Inl err \<Rightarrow> Inl err
      | Inr acc' \<Rightarrow> iterate_loop items fn acc')"

definition iterateWithPrefix ::
    "KVS \<Rightarrow> Time \<Rightarrow> string \<Rightarrow> (string \<Rightarrow> Value \<Rightarrow> 'a \<Rightarrow> error + 'a) \<Rightarrow> 'a \<Rightarrow> error + 'a" where
  "iterateWithPrefix st now prefix fn acc = iterate_loop (iterate_prefix st now prefix) fn acc"

definition BadgerEngine_ListNodes :: "BadgerEngine \<Rightarrow> Time \<Rightarrow> GraphID \<Rightarrow> error + Node list" where
  "BadgerEngine_ListNodes e now graphID =
     (case db e of
        None \<Rightarrow> Inl not_opened
      | Some st \<Rightarrow>
          (case iterateWithPrefix st now (CreateNodeIteratorPrefix graphID)
                  (\<lambda>key val nodes.
                     case Node_FromJSON val of
                       Inl err \<Rightarrow> Inl (Wrap ''failed to deserialize node: '' err)
                     | Inr node \<Rightarrow> Inr (nodes @ [node])) [] of
             Inl err \<Rightarrow> Inl (Wrap ''failed to list nodes: '' err)
           | Inr nodes \<Rightarrow> Inr nodes))"

definition BadgerEngine_ListEdges :: "BadgerEngine \<Rightarrow> Time \<Rightarrow> GraphID \<Rightarrow> error + Edge list" where
  "BadgerEngine_ListEdges e now graphID =
     (case db e of
        None \<Rightarrow> Inl not_opened
      | Some st \<Rightarrow>
          (case iterateWithPrefix st now (CreateEdgeIteratorPrefix graphID)
                  (\<lambda>key val edges.
                     case Edge_FromJSON val of
                       Inl err \<Rightarrow> Inl (Wrap ''failed to deserialize edge: '' err)
                     | Inr edge \<Rightarrow> Inr (edges @ [edge])) [] of
             Inl err \<Rightarrow> Inl (Wrap ''failed to list edges: '' err)
           | Inr edges \<Rightarrow> Inr edges))"

text \<open>
  The three index readers. The edge identifier is the value of the index entry; an
  entry whose edge cannot be fetched is skipped.
\<close>

definition fetch_edge ::
    "BadgerEngine \<Rightarrow> Time \<Rightarrow> GraphID \<Rightarrow> string \<Rightarrow> Value \<Rightarrow> Edge list \<Rightarrow> error + Edge list" where
  "fetch_edge e now graphID key val edges =
     (case BadgerEngine_GetEdge e now graphID (bytes_of val) of
        Inl err \<Rightarrow> Inr edges
      | Inr edge \<Rightarrow> Inr (edges @ [edge]))"


definition BadgerEngine_GetOutgoingEdges ::
    "BadgerEngine \<Rightarrow> Time \<Rightarrow> GraphID \<Rightarrow> NodeID \<Rightarrow> error + Edge list" where
  "BadgerEngine_GetOutgoingEdges e now graphID nodeID =
     (case db e of
        None \<Rightarrow> Inl not_opened
      | Some st \<Rightarrow>
          (case iterateWithPrefix st now
                  (NodeIndexPrefix @ ''out:'' @ graphID @ '':'' @ nodeID @ '':'')
                  (fetch_edge e now graphID) [] of
             Inl err \<Rightarrow> Inl (Wrap ''failed to get outgoing edges: '' err)
           | Inr edges \<Rightarrow> Inr edges))"

definition BadgerEngine_GetIncomingEdges ::
    "BadgerEngine \<Rightarrow> Time \<Rightarrow> GraphID \<Rightarrow> NodeID \<Rightarrow> error + Edge list" where
  "BadgerEngine_GetIncomingEdges e now graphID nodeID =
     (case db e of
        None \<Rightarrow> Inl not_opened
      | Some st \<Rightarrow>
          (case iterateWithPrefix st now
                  (NodeIndexPrefix @ ''in:'' @ graphID @ '':'' @ nodeID @ '':'')
                  (fetch_edge e now graphID) [] of
             Inl err \<Rightarrow> Inl (Wrap ''failed to get incoming edges: '' err)
           | Inr edges \<Rightarrow> Inr edges))"

text \<open>Graph records.\<close>

definition BadgerEngine_CreateGraph :: "BadgerEngine \<Rightarrow> Graph \<Rightarrow> BadgerEngine \<times> error option" where
  "BadgerEngine_CreateGraph e graph =
     engine_update e (\<lambda>tx. (txn_Set tx (EncodeGraphKey (Graph.ID graph)) (GraphJSON graph), None))"

definition BadgerEngine_GetGraph :: "BadgerEngine \<Rightarrow> Time \<Rightarrow> GraphID \<Rightarrow> error + Graph" where
  "BadgerEngine_GetGraph e now graphID =
     (case db e of
        None \<Rightarrow> Inl not_opened
      | Some st \<Rightarrow>
          (case txn_Get st now (EncodeGraphKey graphID) of
             Inl err \<Rightarrow>
               if err = ErrKeyNotFound then Inl (Errorf (''graph not found: '' @ graphID))
               else Inl (Wrap ''failed to get graph: '' err)
           | Inr val \<Rightarrow>
               (case Graph_FromJSON val of
                  Inl err \<Rightarrow> Inl (Wrap ''failed to deserialize graph: '' err)
                | Inr graph \<Rightarrow> Inr graph)))"

text \<open>
  \<open>DeleteGraph\<close>: three phases in one transaction. The errors of the single deletions
  are dropped, the writes they made before failing stay in the transaction.
\<close>

fun delete_nodes_loop ::
    "BadgerTransaction \<Rightarrow> Time \<Rightarrow> GraphID \<Rightarrow> (string \<times> Value) list \<Rightarrow> BadgerTransaction" where
  "delete_nodes_loop t now graphID [] = t"
| "delete_nodes_loop t now graphID ((key, val) # items) =
     (let nodeID = snd (DecodeNodeKey key)
      in if nodeID \<noteq> '''' then
           delete_nodes_loop (fst (BadgerTransaction_DeleteNode t now graphID nodeID)) now graphID items
         else delete_nodes_loop t now graphID items)"

fun delete_graph_edges_loop ::
    "BadgerTransaction \<Rightarrow> Time \<Rightarrow> GraphID \<Rightarrow> (string \<times> Value) list \<Rightarrow> BadgerTransaction" where
  "delete_graph_edges_loop t now graphID [] = t"
| "delete_graph_edges_loop t now graphID ((key, val) # items) =
     (let edgeID = snd (DecodeEdgeKey key)
      in if edgeID \<noteq> '''' then
           delete_graph_edges_loop (fst (BadgerTransaction_DeleteEdge t now graphID edgeID)) now graphID items
         else delete_graph_edges_loop t now graphID items)"

definition BadgerEngine_DeleteGraph ::
    "BadgerEngine \<Rightarrow> Time \<Rightarrow> GraphID \<Rightarrow> BadgerEngine \<times> error option" where
  "BadgerEngine_DeleteGraph e now graphID =
     engine_update e
       (\<lambda>txn.
          let t1 = delete_nodes_loop txn now graphID
                     (iterate_prefix txn now (CreateNodeIteratorPrefix graphID));
              t2 = delete_graph_edges_loop t1 now graphID
                     (iterate_prefix t1 now (CreateEdgeIteratorPrefix graphID))
          in (txn_Delete t2 (EncodeGraphKey graphID), None))"

section \<open>TTL manager (storage/ttl.go)\<close>

text \<open>
  Phase 1 of \<open>cleanupExpiredNodes\<close>: walk the expiry index in key order and collect
  keys until the \<open>break\<close>. \<open>now\<close> is the formatted current time.
\<close>

fun collect_expired :: "(string \<times> Value) list \<Rightarrow> string \<Rightarrow> string list" where
  "collect_expired [] now = []"
| "collect_expired ((key, val) # items) now =
     (let parts = Split key CHR '':''
      in if length parts \<ge> 2 \<and> parts ! 1 > now then []
         else key # collect_expired items now)"

text \<open>
  Phase 2: every collected key is decoded and its node deleted in a transaction of its
  own; a failed deletion is logged and the loop goes on.
\<close>

fun delete_expired :: "BadgerEngine \<Rightarrow> Time \<Rightarrow> string list \<Rightarrow> BadgerEngine" where
  "delete_expired e now [] = e"
| "delete_expired e now (key # keys) =
     (case DecodeExpiryIndexKey key of
        (graphID, nodeID) \<Rightarrow>
          if graphID \<noteq> '''' \<and> nodeID \<noteq> '''' then
            delete_expired (fst (BadgerEngine_DeleteNode e now graphID nodeID)) now keys
          else delete_expired e now keys)"

text \<open>
  \<open>cleanupExpiredNodes\<close> at the time \<open>now\<close>. Without an opened database
  \<open>tm.engine.db.View\<close> dereferences \<open>nil\<close>; that panic is the result \<open>None\<close>.
\<close>

definition cleanupExpiredNodes :: "BadgerEngine \<Rightarrow> Time \<Rightarrow> BadgerEngine option" where
  "cleanupExpiredNodes e now =
     (case db e of
        None \<Rightarrow> None
      | Some st \<Rightarrow>
          (let expiredKeys = collect_expired (iterate_prefix st now CreateExpiryIteratorPrefix)
                               (Format_RFC3339 now)
           in Some (delete_expired e now expiredKeys)))"

definition Cleanup :: "BadgerEngine \<Rightarrow> Time \<Rightarrow> BadgerEngine option" where
  "Cleanup e now = cleanupExpiredNodes e now"

text \<open>
  \<open>ListNodesByType\<close> takes the node identifier from the last colon-separated part of
  the index key and fails when that node cannot be fetched.
\<close>

definition BadgerEngine_ListNodesByType ::
    "BadgerEngine \<Rightarrow> Time \<Rightarrow> GraphID \<Rightarrow> NodeType \<Rightarrow> error + Node list" where
  "BadgerEngine_ListNodesByType e now graphID nodeType =
     (case db e of
        None \<Rightarrow> Inl not_opened
      | Some st \<Rightarrow>
          (case iterateWithPrefix st now (CreateTypeIteratorPrefix graphID ''n'' nodeType)
                  (\<lambda>key val nodes.
                     let parts = Split key CHR '':''
                     in if length parts \<ge> 4 then
                          (case BadgerEngine_GetNode e now graphID (parts ! (length parts - 1)) of
                             Inl err \<Rightarrow> Inl err
                           | Inr node \<Rightarrow> Inr (nodes @ [node]))
                        else Inr nodes) [] of
             Inl err \<Rightarrow> Inl (Wrap ''failed to list nodes by type: '' err)
           | Inr nodes \<Rightarrow> Inr nodes))"

section \<open>Notions used in the statements\<close>

text \<open>
  The edges that the entries \<open>items\<close> of an index name and \<open>GetEdge\<close> returns, in the
  order of the entries.
\<close>

definition present_edges :: "BadgerEngine \<Rightarrow> Time \<Rightarrow> GraphID \<Rightarrow> (string \<times> Value) list \<Rightarrow> Edge list" where
  "present_edges e now g items =
     List.map_filter (\<lambda>(key, val). case BadgerEngine_GetEdge e now g (bytes_of val) of
                                      Inl err \<Rightarrow> None | Inr edge \<Rightarrow> Some edge) items"

text \<open>The keys of a store, in their order.\<close>

definition store_keys :: "BadgerEngine \<Rightarrow> string list" where
  "store_keys e = (case db e of None \<Rightarrow> [] | Some st \<Rightarrow> map fst st)"

section \<open>Facts about the store\<close>

subsection \<open>Transactions and the engine wrapper\<close>

lemma engine_update_error:
  "snd (fn st) = Some err \<Longrightarrow> db e = Some st \<Longrightarrow> engine_update e fn = (e, Some err)"
  by (cases "fn st") (simp add: engine_update_def Update_def)

lemma engine_update_closed: "db e = None \<Longrightarrow> engine_update e fn = (e, Some not_opened)"
  by (simp add: engine_update_def)

lemma engine_update_same:
  "db e = Some st \<Longrightarrow> fn st = (st, None) \<Longrightarrow> engine_update e fn = (e, None)"
  by (simp add: engine_update_def Update_def)

lemma txn_Delete_absent: "k \<notin> fst ` set st \<Longrightarrow> txn_Delete st k = st"
  unfolding txn_Delete_def by (induction st) auto

subsection \<open>Iterators\<close>

lemma iterate_prefix_subset:
  assumes a: "(key, val) \<in> set (iterate_prefix st now p)"
  shows "key \<in> fst ` set st \<and> HasPrefix key p"
proof -
  let ?tw = "takeWhile (\<lambda>(k, e). HasPrefix k p) (Seek now st p)"
  from a have "(key, val) \<in> (\<lambda>(k, v, ex). (k, v)) ` set ?tw"
    by (simp add: iterate_prefix_def)
  then obtain x where x: "x \<in> set ?tw" and kv: "(key, val) = (\<lambda>(k, v, ex). (k, v)) x"
    by (rule imageE)
  obtain k v ex where xe: "x = (k, v, ex)" by (cases x)
  with kv have k: "k = key" by simp
  from x have "x \<in> set (Seek now st p) \<and> (\<lambda>(k, e). HasPrefix k p) x"
    by (rule set_takeWhileD)
  with xe k have m: "(key, v, ex) \<in> set (Seek now st p)" and h: "HasPrefix key p"
    by simp_all
  from m have "(key, v, ex) \<in> set (live now st)"
    unfolding Seek_def by (rule set_dropWhileD)
  then have "(key, v, ex) \<in> set st"
    by (simp add: live_def)
  then have "fst (key, v, ex) \<in> fst ` set st" by (rule imageI)
  with h show ?thesis by simp
qed

lemma iterate_prefix_empty:
  assumes "\<forall>k \<in> fst ` set st. \<not> HasPrefix k p"
  shows "iterate_prefix st now p = []"
proof (cases "iterate_prefix st now p")
  case Nil
  then show ?thesis .
next
  case (Cons item items)
  obtain key val where "item = (key, val)" by (cases item)
  with Cons have "(key, val) \<in> set (iterate_prefix st now p)" by simp
  then have "key \<in> fst ` set st \<and> HasPrefix key p" by (rule iterate_prefix_subset)
  with assms show ?thesis by blast
qed

lemma iterate_fetch_edge:
  "iterate_loop items (fetch_edge e now g) acc = Inr (acc @ present_edges e now g items)"
proof (induction items arbitrary: acc)
  case Nil
  then show ?case by (simp add: present_edges_def)
next
  case (Cons item items)
  obtain key val where item: "item = (key, val)" by (cases item)
  show ?case
    using Cons.IH
    by (cases "BadgerEngine_GetEdge e now g (bytes_of val)")
       (simp_all add: item fetch_edge_def present_edges_def)
qed

lemma present_edges_member:
  "edge \<in> set (present_edges e now g items) \<longleftrightarrow>
     (\<exists>key val. (key, val) \<in> set items \<and> BadgerEngine_GetEdge e now g (bytes_of val) = Inr edge)"
proof (induction items)
  case Nil
  then show ?case by (simp add: present_edges_def)
next
  case (Cons item items)
  obtain k v where item: "item = (k, v)" by (cases item)
  show ?case
    using Cons.IH
    by (cases "BadgerEngine_GetEdge e now g (bytes_of v)")
       (auto simp: item present_edges_def)
qed

subsection \<open>Stored nodes\<close>

lemma txn_Get_key: "txn_Get st now k = Inr v \<Longrightarrow> k \<in> fst ` set st"
proof -
  assume a: "txn_Get st now k = Inr v"
  then obtain x where "map_of (live now st) k = Some x"
    by (cases "map_of (live now st) k") (simp_all add: txn_Get_def)
  then have "(k, x) \<in> set (live now st)" by (rule map_of_SomeD)
  then have "(k, x) \<in> set st" by (simp add: live_def)
  then have "fst (k, x) \<in> fst ` set st" by (rule imageI)
  then show ?thesis by simp
qed

lemma GetNode_key:
  assumes "\<not> isl (BadgerTransaction_GetNode st now g n)"
  shows "EncodeNodeKey g n \<in> fst ` set st"
proof (cases "txn_Get st now (EncodeNodeKey g n)")
  case (Inl err)
  with assms show ?thesis
    by (simp add: BadgerTransaction_GetNode_def t_get_def split: if_splits)
next
  case (Inr v)
  then show ?thesis by (rule txn_Get_key)
qed

lemma GetEdge_key:
  assumes "\<not> isl (BadgerTransaction_GetEdge st now g eid)"
  shows "EncodeEdgeKey g eid \<in> fst ` set st"
proof (cases "txn_Get st now (EncodeEdgeKey g eid)")
  case (Inl err)
  with assms show ?thesis
    by (simp add: BadgerTransaction_GetEdge_def t_get_def split: if_splits)
next
  case (Inr v)
  then show ?thesis by (rule txn_Get_key)
qed

lemma inj_EncodeNodeKey: "inj (EncodeNodeKey g)"
  by (rule injI) (simp add: EncodeNodeKey_def)

subsection \<open>Stored edges\<close>

text \<open>
  The edge records of a store and the nodes they join. Every edge the engine returns is
  one of them, so a search that marks each node it enqueues can enqueue only finitely
  many.
\<close>

definition stored_edges :: "KVS \<Rightarrow> Edge set" where
  "stored_edges st = {edge. EdgeJSON edge \<in> (fst \<circ> snd) ` set st}"

definition edge_endpoints :: "BadgerEngine \<Rightarrow> NodeID set" where
  "edge_endpoints e =
     (case db e of
        None \<Rightarrow> {}
      | Some st \<Rightarrow> (\<Union>edge \<in> stored_edges st. {Edge.FromNodeID edge, Edge.ToNodeID edge}))"

lemma finite_stored_edges: "finite (stored_edges st)"
proof -
  have "stored_edges st = EdgeJSON -` ((fst \<circ> snd) ` set st)"
    by (simp add: stored_edges_def vimage_def)
  moreover have "finite (EdgeJSON -` ((fst \<circ> snd) ` set st))"
    by (intro finite_vimageI) (simp_all add: inj_def)
  ultimately show ?thesis by simp
qed

lemma finite_edge_endpoints: "finite (edge_endpoints e)"
  by (cases "db e") (simp_all add: edge_endpoints_def finite_stored_edges)

lemma txn_Get_value: "txn_Get st now k = Inr v \<Longrightarrow> v \<in> (fst \<circ> snd) ` set st"
proof -
  assume a: "txn_Get st now k = Inr v"
  then obtain x where x: "map_of (live now st) k = Some x" and v: "fst x = v"
    by (cases "map_of (live now st) k") (auto simp: txn_Get_def split: prod.splits)
  from x have "(k, x) \<in> set (live now st)" by (rule map_of_SomeD)
  then have "(k, x) \<in> set st" by (simp add: live_def)
  then have "(fst \<circ> snd) (k, x) \<in> (fst \<circ> snd) ` set st" by (rule imageI)
  with v show ?thesis by simp
qed

lemma GetEdge_stored:
  assumes "BadgerTransaction_GetEdge st now g eid = Inr edge"
  shows "edge \<in> stored_edges st"
proof (cases "txn_Get st now (EncodeEdgeKey g eid)")
  case (Inl err)
  with assms show ?thesis
    by (simp add: BadgerTransaction_GetEdge_def t_get_def split: if_splits)
next
  case (Inr v)
  with assms have "v = EdgeJSON edge"
    by (cases v) (simp_all add: BadgerTransaction_GetEdge_def t_get_def Edge_FromJSON_def)
  with Inr have "EdgeJSON edge \<in> (fst \<circ> snd) ` set st"
    using txn_Get_value by blast
  then show ?thesis by (simp add: stored_edges_def)
qed

lemma present_edges_stored:
  assumes "db e = Some st" and "edge \<in> set (present_edges e now g items)"
  shows "edge \<in> stored_edges st"
proof -
  from assms(2) obtain key val where "BadgerEngine_GetEdge e now g (bytes_of val) = Inr edge"
    unfolding present_edges_member by blast
  with assms(1) have "BadgerTransaction_GetEdge st now g (bytes_of val) = Inr edge"
    by (simp add: BadgerEngine_GetEdge_def)
  then show ?thesis by (rule GetEdge_stored)
qed

lemma GetOutgoingEdges_present:
  "db e = Some st \<Longrightarrow>
   BadgerEngine_GetOutgoingEdges e now g n
     = Inr (present_edges e now g
              (iterate_prefix st now (NodeIndexPrefix @ ''out:'' @ g @ '':'' @ n @ '':'')))"
  by (simp add: BadgerEngine_GetOutgoingEdges_def iterateWithPrefix_def iterate_fetch_edge)

lemma GetIncomingEdges_present:
  "db e = Some st \<Longrightarrow>
   BadgerEngine_GetIncomingEdges e now g n
     = Inr (present_edges e now g
              (iterate_prefix st now (NodeIndexPrefix @ ''in:'' @ g @ '':'' @ n @ '':'')))"
  by (simp add: BadgerEngine_GetIncomingEdges_def iterateWithPrefix_def iterate_fetch_edge)

section \<open>Analysis types (types/analysis.go)\<close>

datatype TraversalDirection = DirectionForward | DirectionBackward | DirectionBoth

record TraversalOptions =
  MaxDepth :: int
  EdgeTypes :: "EdgeType list"
  NodeTypes :: "NodeType list"
  Direction :: TraversalDirection
  StopCondition :: "(Node \<Rightarrow> bool) option"

record TraversalResult =
  Nodes :: "Node list"
  Edges :: "Edge list"
  Path :: "NodeID list"
  Distance :: int

record PathResult =
  FromNodeID :: NodeID
  ToNodeID :: NodeID
  Path :: "NodeID list"
  Length :: int
  Edges :: "EdgeID list"

section \<open>Graph analyzer (analysis/analyzer.go)\<close>

text \<open>
  The analyzer reads the graph through the storage engine only. The three code paths
  that fetch the edges of a node for a direction share one model, \<open>connected_edges\<close>,
  with the error messages of the source.
\<close>

definition connected_edges ::
    "BadgerEngine \<Rightarrow> Time \<Rightarrow> GraphID \<Rightarrow> TraversalDirection \<Rightarrow> NodeID \<Rightarrow> error + Edge list" where
  "connected_edges e now graphID dir nodeID =
     (case dir of
        DirectionForward \<Rightarrow>
          (case BadgerEngine_GetOutgoingEdges e now graphID nodeID of
             Inl err \<Rightarrow> Inl (Wrap ''failed to get connected edges: '' err)
           | Inr es \<Rightarrow> Inr es)
      | DirectionBackward \<Rightarrow>
          (case BadgerEngine_GetIncomingEdges e now graphID nodeID of
             Inl err \<Rightarrow> Inl (Wrap ''failed to get connected edges: '' err)
           | Inr es \<Rightarrow> Inr es)
      | DirectionBoth \<Rightarrow>
          (case BadgerEngine_GetOutgoingEdges e now graphID nodeID of
             Inl err1 \<Rightarrow> Inl (Wrap ''failed to get outgoing edges: '' err1)
           | Inr outgoing \<Rightarrow>
               (case BadgerEngine_GetIncomingEdges e now graphID nodeID of
                  Inl err2 \<Rightarrow> Inl (Wrap ''failed to get incoming edges: '' err2)
                | Inr incoming \<Rightarrow> Inr (outgoing @ incoming))))"

text \<open>The edge-type filter: an empty list of types lets every edge pass.\<close>

definition filter_edge_types :: "EdgeType list \<Rightarrow> Edge list \<Rightarrow> Edge list" where
  "filter_edge_types edgeTypes connectedEdges =
     (if length edgeTypes > 0 then filter (\<lambda>edge. Edge.Type edge \<in> set edgeTypes) connectedEdges
      else connectedEdges)"

definition node_type_match :: "NodeType list \<Rightarrow> Node \<Rightarrow> bool" where
  "node_type_match nodeTypes node =
     (if length nodeTypes > 0 then Node.Type node \<in> set nodeTypes else True)"

text \<open>The node an edge leads to from \<open>current\<close>; the empty identifier when it does not.\<close>

definition next_node :: "TraversalDirection \<Rightarrow> NodeID \<Rightarrow> Edge \<Rightarrow> NodeID" where
  "next_node dir current edge =
     (case dir of
        DirectionForward \<Rightarrow> if Edge.FromNodeID edge = current then Edge.ToNodeID edge else ''''
      | DirectionBackward \<Rightarrow> if Edge.ToNodeID edge = current then Edge.FromNodeID edge else ''''
      | DirectionBoth \<Rightarrow>
          if Edge.FromNodeID edge = current then Edge.ToNodeID edge
          else if Edge.ToNodeID edge = current then Edge.FromNodeID edge
          else '''')"

definition stop_at :: "TraversalOptions \<Rightarrow> Node \<Rightarrow> bool" where
  "stop_at options node = (case StopCondition options of None \<Rightarrow> False | Some stop \<Rightarrow> stop node)"

definition depth_exceeded :: "TraversalOptions \<Rightarrow> int \<Rightarrow> bool" where
  "depth_exceeded options depth = (MaxDepth options \<ge> 0 \<and> depth > MaxDepth options)"

subsection \<open>DepthFirstSearch\<close>

text \<open>
  The local variables of \<open>DepthFirstSearch\<close>. The top of the stack is the last element
  of the slice.
\<close>

record dfs_state =
  dfs_visited :: "NodeID set"
  dfs_nodes :: "Node list"
  dfs_edges :: "Edge list"
  dfs_path :: "NodeID list"
  dfs_stack :: "(NodeID \<times> int) list"

text \<open>
  The last loop of the body: the edges are walked from the last to the first, and an
  edge to a node that is not visited is recorded and its target pushed.
\<close>

definition push_edges ::
    "TraversalDirection \<Rightarrow> NodeID \<Rightarrow> int \<Rightarrow> Edge list \<Rightarrow> dfs_state \<Rightarrow> dfs_state" where
  "push_edges dir current depth connectedEdges s =
     (let followed = filter (\<lambda>edge. next_node dir current edge \<noteq> ''''
                                      \<and> next_node dir current edge \<notin> dfs_visited s)
                       (rev connectedEdges)
      in s\<lparr>dfs_edges := dfs_edges s @ followed,
            dfs_stack := dfs_stack s @ map (\<lambda>edge. (next_node dir current edge, depth + 1)) followed\<rparr>)"

text \<open>
  One run of the loop body on a non-empty stack: \<open>Inl\<close> is the \<open>return nil, err\<close> of
  the body, \<open>Inr\<close> the state at the next test of the loop condition.
\<close>

definition dfs_step ::
    "BadgerEngine \<Rightarrow> Time \<Rightarrow> GraphID \<Rightarrow> TraversalOptions \<Rightarrow> dfs_state \<Rightarrow> error + dfs_state" where
  "dfs_step e now graphID options s =
     (let current = last (dfs_stack s);
          s1 = s\<lparr>dfs_stack := butlast (dfs_stack s)\<rparr>
      in if fst current \<in> dfs_visited s1 then Inr s1
         else if depth_exceeded options (snd current) then Inr s1
         else
           (let s2 = s1\<lparr>dfs_visited := insert (fst current) (dfs_visited s1)\<rparr>
            in case BadgerEngine_GetNode e now graphID (fst current) of
                 Inl err \<Rightarrow> Inl (Wrap (''failed to get node '' @ fst current @ '': '') err)
               | Inr node \<Rightarrow>
                   if stop_at options node then Inr s2
                   else
                     (let s3 = (if node_type_match (NodeTypes options) node
                                then s2\<lparr>dfs_nodes := dfs_nodes s2 @ [node], dfs_path := dfs_path s2 @ [fst current]\<rparr>
                                else s2)
                      in case connected_edges e now graphID (Direction options) (fst current) of
                           Inl err \<Rightarrow> Inl err
                         | Inr connectedEdges \<Rightarrow>
                             Inr (push_edges (Direction options) (fst current) (snd current)
                                    (filter_edge_types (EdgeTypes options) connectedEdges) s3))))"

text \<open>
  The nodes of a graph that can be fetched. The loop marks a node visited before it
  fetches it and returns when the fetch fails, so every run of the body that continues
  either shortens the stack or visits one more of these nodes.
\<close>

definition stored_nodes :: "BadgerEngine \<Rightarrow> Time \<Rightarrow> GraphID \<Rightarrow> NodeID set" where
  "stored_nodes e now graphID = {n. \<not> isl (BadgerEngine_GetNode e now graphID n)}"

lemma finite_stored_nodes: "finite (stored_nodes e now g)"
proof (cases "db e")
  case None
  then show ?thesis by (simp add: stored_nodes_def BadgerEngine_GetNode_def)
next
  case (Some st)
  have "stored_nodes e now g \<subseteq> EncodeNodeKey g -` (fst ` set st)"
    using Some GetNode_key by (auto simp: stored_nodes_def BadgerEngine_GetNode_def)
  moreover have "finite (EncodeNodeKey g -` (fst ` set st))"
    by (intro finite_vimageI inj_EncodeNodeKey) simp
  ultimately show ?thesis by (rule finite_subset)
qed

text \<open>The loop of \<open>DepthFirstSearch\<close> and the measure that shows it ends.\<close>

definition dfs_measure :: "BadgerEngine \<Rightarrow> Time \<Rightarrow> GraphID \<Rightarrow> dfs_state \<Rightarrow> nat \<times> nat" where
  "dfs_measure e now g s = (card (stored_nodes e now g - dfs_visited s), length (dfs_stack s))"

lemma dfs_step_Inr:
  assumes "dfs_step e now g options s = Inr s'"
  obtains (skip) "s' = s\<lparr>dfs_stack := butlast (dfs_stack s)\<rparr>"
  | (stop) node where
      "fst (last (dfs_stack s)) \<notin> dfs_visited s"
      "BadgerEngine_GetNode e now g (fst (last (dfs_stack s))) = Inr node"
      "stop_at options node"
      "s' = s\<lparr>dfs_stack := butlast (dfs_stack s), dfs_visited := insert (fst (last (dfs_stack s))) (dfs_visited s)\<rparr>"
  | (expand) node ces where
      "fst (last (dfs_stack s)) \<notin> dfs_visited s"
      "BadgerEngine_GetNode e now g (fst (last (dfs_stack s))) = Inr node"
      "\<not> stop_at options node"
      "connected_edges e now g (Direction options) (fst (last (dfs_stack s))) = Inr ces"
      "s' = push_edges (Direction options) (fst (last (dfs_stack s))) (snd (last (dfs_stack s)))
              (filter_edge_types (EdgeTypes options) ces)
              (if node_type_match (NodeTypes options) node
               then s\<lparr>dfs_stack := butlast (dfs_stack s),
                      dfs_visited := insert (fst (last (dfs_stack s))) (dfs_visited s),
                      dfs_nodes := dfs_nodes s @ [node], dfs_path := dfs_path s @ [fst (last (dfs_stack s))]\<rparr>
               else s\<lparr>dfs_stack := butlast (dfs_stack s),
                      dfs_visited := insert (fst (last (dfs_stack s))) (dfs_visited s)\<rparr>)"
proof (cases "fst (last (dfs_stack s)) \<in> dfs_visited s
              \<or> depth_exceeded options (snd (last (dfs_stack s)))")
  case True
  with assms have "s' = s\<lparr>dfs_stack := butlast (dfs_stack s)\<rparr>"
    by (simp add: dfs_step_def Let_def split: if_splits)
  then show ?thesis by (rule skip)
next
  case False
  then have unvisited: "fst (last (dfs_stack s)) \<notin> dfs_visited s"
    and depth: "\<not> depth_exceeded options (snd (last (dfs_stack s)))"
    by simp_all
  show ?thesis
  proof (cases "BadgerEngine_GetNode e now g (fst (last (dfs_stack s)))")
    case (Inl err)
    with unvisited depth assms show ?thesis
      by (simp add: dfs_step_def Let_def)
  next
    case (Inr node)
    show ?thesis
    proof (cases "stop_at options node")
      case True
      with Inr unvisited depth assms
      have "s' = s\<lparr>dfs_stack := butlast (dfs_stack s), dfs_visited := insert (fst (last (dfs_stack s))) (dfs_visited s)\<rparr>"
        by (simp add: dfs_step_def Let_def)
      with unvisited Inr True show ?thesis by (rule stop)
    next
      case False
      show ?thesis
      proof (cases "connected_edges e now g (Direction options) (fst (last (dfs_stack s)))")
        case (Inl err)
        with False Inr unvisited depth assms show ?thesis
          by (simp add: dfs_step_def Let_def)
      next
        case ces: (Inr ces)
        with False Inr unvisited depth assms
        have "s' = push_edges (Direction options) (fst (last (dfs_stack s))) (snd (last (dfs_stack s)))
              (filter_edge_types (EdgeTypes options) ces)
              (if node_type_match (NodeTypes options) node
               then s\<lparr>dfs_stack := butlast (dfs_stack s),
                      dfs_visited := insert (fst (last (dfs_stack s))) (dfs_visited s),
                      dfs_nodes := dfs_nodes s @ [node], dfs_path := dfs_path s @ [fst (last (dfs_stack s))]\<rparr>
               else s\<lparr>dfs_stack := butlast (dfs_stack s),
                      dfs_visited := insert (fst (last (dfs_stack s))) (dfs_visited s)\<rparr>)"
          by (cases "node_type_match (NodeTypes options) node")
             (simp_all add: dfs_step_def Let_def)
        with unvisited Inr False ces show ?thesis by (rule expand)
      qed
    qed
  qed
qed

lemma dfs_step_decreases:
  assumes "dfs_stack s \<noteq> []" and "dfs_step e now g options s = Inr s'"
  shows "(dfs_measure e now g s', dfs_measure e now g s) \<in> less_than <*lex*> less_than"
proof -
  let ?cur = "fst (last (dfs_stack s))"
  have fewer: "(dfs_measure e now g t, dfs_measure e now g s) \<in> less_than <*lex*> less_than"
    if "dfs_visited t = insert ?cur (dfs_visited s)" and "?cur \<notin> dfs_visited s"
      and "BadgerEngine_GetNode e now g ?cur = Inr node" for t node
  proof -
    from that have "?cur \<in> stored_nodes e now g - dfs_visited s"
      by (simp add: stored_nodes_def)
    moreover have "stored_nodes e now g - dfs_visited t
                     = (stored_nodes e now g - dfs_visited s) - {?cur}"
      using that(1) by auto
    moreover have "finite (stored_nodes e now g - dfs_visited s)"
      using finite_stored_nodes[of e now g] by (rule finite_Diff)
    ultimately have "card (stored_nodes e now g - dfs_visited t) < card (stored_nodes e now g - dfs_visited s)"
      by (simp only: card_Diff1_less)
    then show ?thesis by (simp add: dfs_measure_def)
  qed
  from assms(2) show ?thesis
  proof (cases rule: dfs_step_Inr)
    case skip
    with assms(1) show ?thesis by (simp add: dfs_measure_def)
  next
    case (stop node)
    from stop(4) have "dfs_visited s' = insert ?cur (dfs_visited s)" by simp
    then show ?thesis using stop(1,2) by (rule fewer)
  next
    case (expand node ces)
    from expand(5) have "dfs_visited s' = insert ?cur (dfs_visited s)"
      by (simp add: push_edges_def Let_def)
    then show ?thesis using expand(1,2) by (rule fewer)
  qed
qed

function dfs_loop ::
    "BadgerEngine \<Rightarrow> Time \<Rightarrow> GraphID \<Rightarrow> TraversalOptions \<Rightarrow> dfs_state \<Rightarrow> error + dfs_state" where
  "dfs_loop e now graphID options s =
     (if dfs_stack s = [] then Inr s
      else case dfs_step e now graphID options s of
             Inl err \<Rightarrow> Inl err
           | Inr s' \<Rightarrow> dfs_loop e now graphID options s')"
  by pat_completeness auto
termination
proof (relation "inv_image (less_than <*lex*> less_than) (\<lambda>(e, now, g, options, s). dfs_measure e now g s)")
  show "wf (inv_image (less_than <*lex*> less_than) (\<lambda>(e, now, g, options, s). dfs_measure e now g s))"
    by (intro wf_inv_image wf_lex_prod wf_less_than)
next
  fix e now graphID options s s'
  assume "dfs_stack s \<noteq> []" and "dfs_step e now graphID options s = Inr s'"
  then have "(dfs_measure e now graphID s', dfs_measure e now graphID s) \<in> less_than <*lex*> less_than"
    by (rule dfs_step_decreases)
  then show "((e, now, graphID, options, s'), (e, now, graphID, options, s))
       \<in> inv_image (less_than <*lex*> less_than) (\<lambda>(e, now, g, options, s). dfs_measure e now g s)"
    by simp
qed

declare dfs_loop.simps [simp del]

text \<open>The options a \<open>nil\<close> argument of \<open>DepthFirstSearch\<close> stands for.\<close>

definition default_options :: TraversalOptions where
  "default_options =
     \<lparr>MaxDepth = - 1, EdgeTypes = [], NodeTypes = [], Direction = DirectionForward,
      StopCondition = None\<rparr>"

definition resolve_options :: "TraversalOptions option \<Rightarrow> TraversalOptions" where
  "resolve_options options = (case options of None \<Rightarrow> default_options | Some options \<Rightarrow> options)"

text \<open>The local variables when the loop is entered.\<close>

definition dfs_start :: "NodeID \<Rightarrow> dfs_state" where
  "dfs_start startNodeID =
     \<lparr>dfs_visited = {}, dfs_nodes = [], dfs_edges = [], dfs_path = [],
      dfs_stack = [(startNodeID, 0)]\<rparr>"

definition DepthFirstSearch ::
    "BadgerEngine \<Rightarrow> Time \<Rightarrow> GraphID \<Rightarrow> NodeID \<Rightarrow> TraversalOptions option
      \<Rightarrow> error + TraversalResult" where
  "DepthFirstSearch e now graphID startNodeID options =
     (case dfs_loop e now graphID (resolve_options options) (dfs_start startNodeID) of
        Inl err \<Rightarrow> Inl err
      | Inr s \<Rightarrow>
          Inr \<lparr>Nodes = dfs_nodes s, Edges = dfs_edges s, Path = dfs_path s,
               Distance = int (length (dfs_path s)) - 1\<rparr>)"

text \<open>
  The state of the loop after \<open>n\<close> runs of its body, or the state in which it ended
  when it ends before.
\<close>

primrec dfs_runs ::
    "nat \<Rightarrow> BadgerEngine \<Rightarrow> Time \<Rightarrow> GraphID \<Rightarrow> TraversalOptions \<Rightarrow> dfs_state
      \<Rightarrow> error + dfs_state" where
  "dfs_runs 0 e now graphID options s = Inr s"
| "dfs_runs (Suc n) e now graphID options s =
     (if dfs_stack s = [] then Inr s
      else case dfs_step e now graphID options s of
             Inl err \<Rightarrow> Inl err
           | Inr s' \<Rightarrow> dfs_runs n e now graphID options s')"

text \<open>
  What holds of the nodes, the path and the edges collected so far: none comes from a
  node on which the stop predicate holds.
\<close>

definition dfs_inv :: "BadgerEngine \<Rightarrow> Time \<Rightarrow> GraphID \<Rightarrow> TraversalOptions \<Rightarrow> dfs_state \<Rightarrow> bool" where
  "dfs_inv e now g options s \<longleftrightarrow>
     (\<forall>node \<in> set (dfs_nodes s). \<not> stop_at options node)
     \<and> (\<forall>n \<in> set (dfs_path s). \<exists>node. BadgerEngine_GetNode e now g n = Inr node \<and> \<not> stop_at options node)
     \<and> (\<forall>edge \<in> set (dfs_edges s). \<exists>n node. BadgerEngine_GetNode e now g n = Inr node
            \<and> \<not> stop_at options node \<and> next_node (Direction options) n edge \<noteq> '''')"

lemma connected_edges_endpoints:
  assumes "connected_edges e now g dir n = Inr es" and "edge \<in> set es"
  shows "Edge.FromNodeID edge \<in> edge_endpoints e \<and> Edge.ToNodeID edge \<in> edge_endpoints e"
proof (cases "db e")
  case None
  with assms(1) show ?thesis
    by (cases dir)
       (simp_all add: connected_edges_def BadgerEngine_GetOutgoingEdges_def
          BadgerEngine_GetIncomingEdges_def)
next
  case (Some st)
  let ?out = "present_edges e now g
                (iterate_prefix st now (NodeIndexPrefix @ ''out:'' @ g @ '':'' @ n @ '':''))"
  let ?in = "present_edges e now g
                (iterate_prefix st now (NodeIndexPrefix @ ''in:'' @ g @ '':'' @ n @ '':''))"
  from assms(1) Some have "es = ?out \<or> es = ?in \<or> es = ?out @ ?in"
    by (cases dir)
       (simp_all add: connected_edges_def GetOutgoingEdges_present GetIncomingEdges_present)
  with assms(2) have "edge \<in> set ?out \<or> edge \<in> set ?in" by auto
  with Some have "edge \<in> stored_edges st" using present_edges_stored by blast
  with Some show ?thesis by (auto simp: edge_endpoints_def)
qed

subsection \<open>GetShortestPath\<close>

text \<open>
  The local variables of the search loop of \<open>GetShortestPath\<close>; the maps are Go maps
  from node identifiers.
\<close>

record sp_state =
  sp_visited :: "NodeID set"
  sp_parent :: "NodeID \<rightharpoonup> NodeID"
  sp_edgeMap :: "NodeID \<rightharpoonup> EdgeID"
  sp_queue :: "(NodeID \<times> int) list"
  sp_found :: bool

text \<open>The loop over the edges of the dequeued node.\<close>

fun sp_visit :: "TraversalDirection \<Rightarrow> NodeID \<Rightarrow> int \<Rightarrow> Edge list \<Rightarrow> sp_state \<Rightarrow> sp_state" where
  "sp_visit dir current depth [] s = s"
| "sp_visit dir current depth (edge # rest) s =
     (let nextNodeID = next_node dir current edge
      in if nextNodeID \<noteq> '''' \<and> nextNodeID \<notin> sp_visited s then
           sp_visit dir current depth rest
             (s\<lparr>sp_visited := insert nextNodeID (sp_visited s),
                sp_parent := (sp_parent s)(nextNodeID \<mapsto> current),
                sp_edgeMap := (sp_edgeMap s)(nextNodeID \<mapsto> Edge.ID edge),
                sp_queue := sp_queue s @ [(nextNodeID, depth + 1)]\<rparr>)
         else sp_visit dir current depth rest s)"

text \<open>
  One run of the loop body on a non-empty queue. Neither the edge-type filter nor the
  depth limit of the options is read by \<open>GetShortestPath\<close>.
\<close>

definition sp_step ::
    "BadgerEngine \<Rightarrow> Time \<Rightarrow> GraphID \<Rightarrow> TraversalOptions \<Rightarrow> NodeID \<Rightarrow> sp_state \<Rightarrow> error + sp_state" where
  "sp_step e now graphID options toNodeID s =
     (let current = hd (sp_queue s);
          s1 = s\<lparr>sp_queue := tl (sp_queue s)\<rparr>
      in if fst current = toNodeID then Inr (s1\<lparr>sp_found := True\<rparr>)
         else
           (case connected_edges e now graphID (Direction options) (fst current) of
              Inl err \<Rightarrow> Inl err
            | Inr connectedEdges \<Rightarrow>
                Inr (sp_visit (Direction options) (fst current) (snd current) connectedEdges s1)))"

definition sp_measure :: "BadgerEngine \<Rightarrow> sp_state \<Rightarrow> nat" where
  "sp_measure e s = card (edge_endpoints e - sp_visited s) + length (sp_queue s)"

lemma next_node_endpoint:
  "next_node dir current edge \<noteq> '''' \<Longrightarrow>
     next_node dir current edge = Edge.FromNodeID edge \<or> next_node dir current edge = Edge.ToNodeID edge"
  by (cases dir) (simp_all add: next_node_def split: if_splits)

lemma sp_visit_measure:
  assumes "\<forall>edge \<in> set es. Edge.FromNodeID edge \<in> edge_endpoints e \<and> Edge.ToNodeID edge \<in> edge_endpoints e"
  shows "sp_measure e (sp_visit dir current depth es s) = sp_measure e s"
  using assms
proof (induction es arbitrary: s)
  case Nil
  then show ?case by simp
next
  case (Cons edge es)
  let ?next = "next_node dir current edge"
  show ?case
  proof (cases "?next \<noteq> '''' \<and> ?next \<notin> sp_visited s")
    case True
    let ?s' = "s\<lparr>sp_visited := insert ?next (sp_visited s),
                sp_parent := (sp_parent s)(?next \<mapsto> current),
                sp_edgeMap := (sp_edgeMap s)(?next \<mapsto> Edge.ID edge),
                sp_queue := sp_queue s @ [(?next, depth + 1)]\<rparr>"
    from True Cons.prems have "?next \<in> edge_endpoints e"
      using next_node_endpoint[of dir current edge] by auto
    with True have mem: "?next \<in> edge_endpoints e - sp_visited s" by simp
    have fin: "finite (edge_endpoints e - sp_visited s)"
      using finite_edge_endpoints by (rule finite_Diff)
    have "edge_endpoints e - sp_visited ?s' = (edge_endpoints e - sp_visited s) - {?next}"
      by auto
    then have "card (edge_endpoints e - sp_visited ?s') = card (edge_endpoints e - sp_visited s) - 1"
      using mem fin by (simp add: card_Diff_singleton)
    moreover from mem fin have "card (edge_endpoints e - sp_visited s) > 0"
      using card_gt_0_iff by blast
    ultimately have "sp_measure e ?s' = sp_measure e s"
      by (simp add: sp_measure_def)
    moreover have "sp_measure e (sp_visit dir current depth es ?s') = sp_measure e ?s'"
      using Cons.prems by (intro Cons.IH) simp
    ultimately show ?thesis using True by (simp add: Let_def)
  next
    case False
    moreover have "sp_measure e (sp_visit dir current depth es s) = sp_measure e s"
      using Cons.prems by (intro Cons.IH) simp
    ultimately show ?thesis by (auto simp: Let_def)
  qed
qed

lemma sp_step_decreases:
  assumes "sp_queue s \<noteq> []" and "sp_step e now g options toNodeID s = Inr s'"
  shows "sp_measure e s' < sp_measure e s"
proof -
  let ?cur = "hd (sp_queue s)"
  let ?s1 = "s\<lparr>sp_queue := tl (sp_queue s)\<rparr>"
  from assms(1) have shorter: "sp_measure e ?s1 < sp_measure e s"
    by (cases "sp_queue s") (simp_all add: sp_measure_def)
  show ?thesis
  proof (cases "fst ?cur = toNodeID")
    case True
    with assms(2) have "s' = ?s1\<lparr>sp_found := True\<rparr>"
      by (simp add: sp_step_def Let_def)
    then have "sp_measure e s' = sp_measure e ?s1" by (simp add: sp_measure_def)
    with shorter show ?thesis by simp
  next
    case False
    show ?thesis
    proof (cases "connected_edges e now g (Direction options) (fst ?cur)")
      case (Inl err)
      with False assms(2) show ?thesis by (simp add: sp_step_def Let_def)
    next
      case (Inr ces)
      with False assms(2) have "s' = sp_visit (Direction options) (fst ?cur) (snd ?cur) ces ?s1"
        by (simp add: sp_step_def Let_def)
      moreover have "\<forall>edge \<in> set ces. Edge.FromNodeID edge \<in> edge_endpoints e
                        \<and> Edge.ToNodeID edge \<in> edge_endpoints e"
        using Inr connected_edges_endpoints by blast
      ultimately have "sp_measure e s' = sp_measure e ?s1"
        by (simp add: sp_visit_measure)
      with shorter show ?thesis by simp
    qed
  qed
qed

function sp_loop ::
    "BadgerEngine \<Rightarrow> Time \<Rightarrow> GraphID \<Rightarrow> TraversalOptions \<Rightarrow> NodeID \<Rightarrow> sp_state \<Rightarrow> error + sp_state" where
  "sp_loop e now graphID options toNodeID s =
     (if sp_queue s = [] \<or> sp_found s then Inr s
      else case sp_step e now graphID options toNodeID s of
             Inl err \<Rightarrow> Inl err
           | Inr s' \<Rightarrow> sp_loop e now graphID options toNodeID s')"
  by pat_completeness auto
termination
proof (relation "measure (\<lambda>(e, now, g, options, toNodeID, s). sp_measure e s)")
  show "wf (measure (\<lambda>(e, now, g, options, toNodeID, s). sp_measure e s))" by simp
next
  fix e now graphID options toNodeID s s'
  assume "\<not> (sp_queue s = [] \<or> sp_found s)" and "sp_step e now graphID options toNodeID s = Inr s'"
  then have "sp_measure e s' < sp_measure e s"
    using sp_step_decreases by blast
  then show "((e, now, graphID, options, toNodeID, s'), (e, now, graphID, options, toNodeID, s))
       \<in> measure (\<lambda>(e, now, g, options, toNodeID, s). sp_measure e s)"
    by simp
qed

declare sp_loop.simps [simp del]

text \<open>
  The reconstruction loop walks the parent map from the target back to the source; a
  missing key reads as the empty identifier. On an arbitrary map the walk need not reach
  the source, so the loop is a partial function and \<open>None\<close> stands for a call that
  does not return.
\<close>

partial_function (option) reconstruct ::
    "(NodeID \<rightharpoonup> NodeID) \<Rightarrow> (NodeID \<rightharpoonup> EdgeID) \<Rightarrow> NodeID \<Rightarrow> NodeID \<Rightarrow> NodeID list \<Rightarrow> EdgeID list
      \<Rightarrow> (NodeID list \<times> EdgeID list) option" where
  "reconstruct parent edgeMap fromNodeID currentNode path edges =
     (if currentNode \<noteq> fromNodeID then
        reconstruct parent edgeMap fromNodeID
          (case parent currentNode of None \<Rightarrow> '''' | Some p \<Rightarrow> p)
          (currentNode # path)
          (case edgeMap currentNode of None \<Rightarrow> edges | Some edgeID \<Rightarrow> edgeID # edges)
      else Some (path, edges))"

declare reconstruct.simps [code]

text \<open>The options a \<open>nil\<close> argument of \<open>GetShortestPath\<close> or \<open>FindAllCycles\<close> stands for.\<close>

definition forward_options :: TraversalOptions where
  "forward_options =
     \<lparr>MaxDepth = 0, EdgeTypes = [], NodeTypes = [], Direction = DirectionForward,
      StopCondition = None\<rparr>"

definition GetShortestPath ::
    "BadgerEngine \<Rightarrow> Time \<Rightarrow> GraphID \<Rightarrow> NodeID \<Rightarrow> NodeID \<Rightarrow> TraversalOptions option
      \<Rightarrow> (error + PathResult) option" where
  "GetShortestPath e now graphID fromNodeID toNodeID options =
     (let options = (case options of None \<Rightarrow> forward_options | Some options \<Rightarrow> options)
      in case sp_loop e now graphID options toNodeID
                \<lparr>sp_visited = {fromNodeID}, sp_parent = Map.empty, sp_edgeMap = Map.empty,
                 sp_queue = [(fromNodeID, 0)], sp_found = False\<rparr> of
           Inl err \<Rightarrow> Some (Inl err)
         | Inr s \<Rightarrow>
             if \<not> sp_found s then
               Some (Inl (Errorf (''no path found from '' @ fromNodeID @ '' to '' @ toNodeID)))
             else
               (case reconstruct (sp_parent s) (sp_edgeMap s) fromNodeID toNodeID [] [] of
                  None \<Rightarrow> None
                | Some (path, edges) \<Rightarrow>
                    Some (Inr \<lparr>FromNodeID = fromNodeID, ToNodeID = toNodeID,
                               Path = fromNodeID # path,
                               Length = int (length (fromNodeID # path)) - 1,
                               Edges = edges\<rparr>)))"

subsection \<open>Go slices\<close>

text \<open>
  \<open>AllShortestPaths\<close> keeps a path slice and an edge slice in every queue item and
  extends them with \<open>append\<close>. A slice is a window on a backing array: \<open>append\<close>
  writes into the array when the capacity allows and allocates a copy otherwise, so
  slices appended from one parent can share an array. The heap is the list of the
  arrays allocated so far; an array holds the elements written to it. All slices of this
  function start at index 0 of their array. A full slice grows to one element from
  capacity 0 and by doubling after that, which is Go's rule for slices of fewer than 256
  elements.
\<close>

record slice =
  ptr :: nat
  len :: nat
  cap :: nat

type_synonym 'a heap = "'a list list"

definition slice_elems :: "'a heap \<Rightarrow> slice \<Rightarrow> 'a list" where
  "slice_elems h sl = take (len sl) (h ! ptr sl)"

definition grow_cap :: "nat \<Rightarrow> nat" where
  "grow_cap c = (if c = 0 then 1 else 2 * c)"

text \<open>A composite literal: a new array that the slice fills.\<close>

definition make_slice :: "'a heap \<Rightarrow> 'a list \<Rightarrow> 'a heap \<times> slice" where
  "make_slice h xs = (h @ [xs], \<lparr>ptr = length h, len = length xs, cap = length xs\<rparr>)"

definition go_append :: "'a heap \<Rightarrow> slice \<Rightarrow> 'a \<Rightarrow> 'a heap \<times> slice" where
  "go_append h sl x =
     (if len sl < cap sl then
        (let arr = h ! ptr sl;
             arr' = (if len sl < length arr then arr[len sl := x] else arr @ [x])
         in (h[ptr sl := arr'], sl\<lparr>len := len sl + 1\<rparr>))
      else
        (h @ [slice_elems h sl @ [x]],
         \<lparr>ptr = length h, len = len sl + 1, cap = grow_cap (cap sl)\<rparr>))"

subsection \<open>AllShortestPaths\<close>

record queueItem =
  item_nodeID :: NodeID
  item_path :: slice
  item_edges :: slice
  item_dist :: int

text \<open>
  The local variables of \<open>AllShortestPaths\<close> and the two heaps its slices live in.
  \<open>asp_visited\<close> is the map \<open>visited\<close> from a node to the distance it was first
  expanded at.
\<close>

record asp_state =
  asp_queue :: "queueItem list"
  asp_visited :: "NodeID \<rightharpoonup> int"
  asp_allPaths :: "PathResult list"
  asp_minDistance :: int
  node_heap :: "NodeID heap"
  edge_heap :: "Edge heap"

text \<open>The loop over the outgoing edges of the dequeued item.\<close>

fun asp_explore :: "queueItem \<Rightarrow> Edge list \<Rightarrow> asp_state \<Rightarrow> asp_state" where
  "asp_explore current [] s = s"
| "asp_explore current (edge # rest) s =
     (let nextNodeID = Edge.ToNodeID edge;
          inCurrentPath = (nextNodeID \<in> set (slice_elems (node_heap s) (item_path current)))
      in if \<not> inCurrentPath then
           (case go_append (node_heap s) (item_path current) nextNodeID of
              (nh, newPath) \<Rightarrow>
                (case go_append (edge_heap s) (item_edges current) edge of
                   (eh, newEdges) \<Rightarrow>
                     asp_explore current rest
                       (s\<lparr>node_heap := nh, edge_heap := eh,
                          asp_queue := asp_queue s @
                            [\<lparr>item_nodeID = nextNodeID, item_path = newPath,
                              item_edges = newEdges, item_dist = item_dist current + 1\<rparr>]\<rparr>)))
         else asp_explore current rest s)"

text \<open>
  One run of the loop body on a non-empty queue: an error, or the next state together
  with the flag that the body left the loop by \<open>break\<close>.
\<close>

definition asp_step ::
    "BadgerEngine \<Rightarrow> Time \<Rightarrow> GraphID \<Rightarrow> NodeID \<Rightarrow> NodeID \<Rightarrow> asp_state \<Rightarrow> error + (bool \<times> asp_state)" where
  "asp_step e now graphID fromNodeID toNodeID s =
     (let current = hd (asp_queue s);
          s1 = s\<lparr>asp_queue := tl (asp_queue s)\<rparr>
      in if asp_minDistance s1 \<noteq> - 1 \<and> item_dist current > asp_minDistance s1 then Inr (True, s1)
         else if item_nodeID current = toNodeID then
           (let minDistance = (if asp_minDistance s1 = - 1 then item_dist current
                               else asp_minDistance s1);
                found = \<lparr>FromNodeID = fromNodeID, ToNodeID = toNodeID,
                         Path = slice_elems (node_heap s1) (item_path current),
                         Length = item_dist current,
                         Edges = map Edge.ID (slice_elems (edge_heap s1) (item_edges current))\<rparr>
            in Inr (False,
                    s1\<lparr>asp_minDistance := minDistance,
                       asp_allPaths := (if item_dist current = minDistance
                                        then asp_allPaths s1 @ [found] else asp_allPaths s1)\<rparr>))
         else if (case asp_visited s1 (item_nodeID current) of
                    None \<Rightarrow> False
                  | Some prevDist \<Rightarrow> prevDist < item_dist current) then Inr (False, s1)
         else
           (let s2 = s1\<lparr>asp_visited := (asp_visited s1)(item_nodeID current \<mapsto> item_dist current)\<rparr>
            in case BadgerEngine_GetOutgoingEdges e now graphID (item_nodeID current) of
                 Inl err \<Rightarrow>
                   Inl (Wrap (''failed to get outgoing edges from '' @ item_nodeID current @ '': '') err)
               | Inr outgoingEdges \<Rightarrow> Inr (False, asp_explore current outgoingEdges s2)))"

text \<open>
  The loop. The items of the queue are read through the heap, which later appends can
  overwrite, and no bound on the number of runs is proved here: \<open>None\<close> stands for a
  call that does not return.
\<close>

partial_function (option) asp_loop ::
    "BadgerEngine \<Rightarrow> Time \<Rightarrow> GraphID \<Rightarrow> NodeID \<Rightarrow> NodeID \<Rightarrow> asp_state
      \<Rightarrow> (error + PathResult list) option" where
  "asp_loop e now graphID fromNodeID toNodeID s =
     (if asp_queue s = [] then Some (Inr (asp_allPaths s))
      else case asp_step e now graphID fromNodeID toNodeID s of
             Inl err \<Rightarrow> Some (Inl err)
           | Inr (stop, s') \<Rightarrow>
               if stop then Some (Inr (asp_allPaths s'))
               else asp_loop e now graphID fromNodeID toNodeID s')"

declare asp_loop.simps [code]

definition AllShortestPaths ::
    "BadgerEngine \<Rightarrow> Time \<Rightarrow> GraphID \<Rightarrow> NodeID \<Rightarrow> NodeID \<Rightarrow> (error + PathResult list) option" where
  "AllShortestPaths e now graphID fromNodeID toNodeID =
     (case make_slice [] [fromNodeID] of
        (nh, path) \<Rightarrow>
          (case make_slice [] [] of
             (eh, edges) \<Rightarrow>
               asp_loop e now graphID fromNodeID toNodeID
                 \<lparr>asp_queue = [\<lparr>item_nodeID = fromNodeID, item_path = path, item_edges = edges,
                                item_dist = 0\<rparr>],
                  asp_visited = Map.empty, asp_allPaths = [], asp_minDistance = - 1,
                  node_heap = nh, edge_heap = eh\<rparr>))"

subsection \<open>FindAllCycles\<close>

text \<open>
  The search for cycles blocks the node of every call and enters a node only when it is
  not blocked; the nodes that can be entered are the targets of the stored edges and of
  the edges still to be looked at. Their number bounds the depth of the recursion:
  \<open>cycles_measure\<close> is the measure of a call of the search (left) and of its loop
  over the edges of a node (right).
\<close>

definition cycles_measure ::
    "(BadgerEngine \<times> Time \<times> GraphID \<times> TraversalOptions \<times> NodeID \<times> NodeID \<times> NodeID list
        \<times> NodeID set \<times> NodeID list list)
     + (BadgerEngine \<times> Time \<times> GraphID \<times> TraversalOptions \<times> NodeID \<times> NodeID list
        \<times> NodeID set \<times> Edge list \<times> NodeID list list \<times> NodeID list list)
     \<Rightarrow> nat \<times> nat \<times> nat" where
  "cycles_measure c =
     (case c of
        Inl (e, now, graphID, options, startNode, currentNode, path, blocked, allCycles) \<Rightarrow>
          (card (edge_endpoints e - insert currentNode blocked), 1, 0)
      | Inr (e, now, graphID, options, startNode, path, blocked, edges, newCycles, allCycles) \<Rightarrow>
          (card ((edge_endpoints e \<union> Edge.ToNodeID ` set edges) - blocked), 0, length edges))"

lemma GetOutgoingEdges_endpoints:
  assumes "BadgerEngine_GetOutgoingEdges e now g n = Inr es" and "edge \<in> set es"
  shows "Edge.ToNodeID edge \<in> edge_endpoints e"
proof -
  from assms(1) have "connected_edges e now g DirectionForward n = Inr es"
    by (simp add: connected_edges_def)
  from connected_edges_endpoints[OF this assms(2)] show ?thesis by simp
qed

lemma set_filter_edge_types: "set (filter_edge_types ts es) \<subseteq> set es"
  by (simp add: filter_edge_types_def)

lemma cycles_measure_enter:
  assumes "BadgerEngine_GetOutgoingEdges e now g n = Inr ces"
  shows "(edge_endpoints e \<union> Edge.ToNodeID ` set (filter_edge_types ts ces)) - B
           = edge_endpoints e - B"
proof -
  have "Edge.ToNodeID ` set (filter_edge_types ts ces) \<subseteq> edge_endpoints e"
    using GetOutgoingEdges_endpoints[OF assms] set_filter_edge_types[of ts ces] by blast
  then show ?thesis by blast
qed

lemma cycles_measure_rest:
  "card ((edge_endpoints e \<union> Edge.ToNodeID ` set rest) - B)
     \<le> card ((edge_endpoints e \<union> Edge.ToNodeID ` set (edge # rest)) - B)"
  by (rule card_mono) (auto simp: finite_edge_endpoints)

lemma cycles_measure_descend:
  assumes "Edge.ToNodeID edge \<notin> B"
  shows "card (edge_endpoints e - insert (Edge.ToNodeID edge) B)
           < card ((edge_endpoints e \<union> Edge.ToNodeID ` set (edge # rest)) - B)"
proof (rule psubset_card_mono)
  show "finite ((edge_endpoints e \<union> Edge.ToNodeID ` set (edge # rest)) - B)"
    by (simp add: finite_edge_endpoints)
  show "edge_endpoints e - insert (Edge.ToNodeID edge) B
          \<subset> (edge_endpoints e \<union> Edge.ToNodeID ` set (edge # rest)) - B"
    using assms by auto
qed

text \<open>
  \<open>findCyclesRecursive\<close> and the loop over the edges of its node. \<open>blocked\<close> holds
  the nodes whose entry in the Go map is true. The map is shared by all calls, and a call
  sets the entry of its node on entry and clears it in a deferred function, so on return
  the map is what it was before the call: the model passes the set down and a caller goes
  on with its own. \<open>allCycles\<close> is the slice behind the pointer argument and is
  threaded through; \<open>newCycles\<close> is the result of the call.
\<close>

function findCyclesRecursive ::
    "BadgerEngine \<Rightarrow> Time \<Rightarrow> GraphID \<Rightarrow> TraversalOptions \<Rightarrow> NodeID \<Rightarrow> NodeID \<Rightarrow> NodeID list
      \<Rightarrow> NodeID set \<Rightarrow> NodeID list list \<Rightarrow> error + (NodeID list list \<times> NodeID list list)"
  and cycles_loop ::
    "BadgerEngine \<Rightarrow> Time \<Rightarrow> GraphID \<Rightarrow> TraversalOptions \<Rightarrow> NodeID \<Rightarrow> NodeID list
      \<Rightarrow> NodeID set \<Rightarrow> Edge list \<Rightarrow> NodeID list list \<Rightarrow> NodeID list list
      \<Rightarrow> error + (NodeID list list \<times> NodeID list list)" where
  "findCyclesRecursive e now graphID options startNode currentNode path blocked allCycles =
     (case BadgerEngine_GetOutgoingEdges e now graphID currentNode of
        Inl err \<Rightarrow> Inl (Wrap (''failed to get outgoing edges from '' @ currentNode @ '': '') err)
      | Inr connectedEdges \<Rightarrow>
          cycles_loop e now graphID options startNode path (insert currentNode blocked)
            (filter_edge_types (EdgeTypes options) connectedEdges) [] allCycles)"
| "cycles_loop e now graphID options startNode path blocked [] newCycles allCycles =
     Inr (newCycles, allCycles)"
| "cycles_loop e now graphID options startNode path blocked (edge # rest) newCycles allCycles =
     (if Edge.ToNodeID edge = startNode then
        cycles_loop e now graphID options startNode path blocked rest
          (newCycles @ [path @ [startNode]]) (allCycles @ [path @ [startNode]])
      else if Edge.ToNodeID edge \<notin> blocked then
        (case findCyclesRecursive e now graphID options startNode (Edge.ToNodeID edge)
                (path @ [Edge.ToNodeID edge]) blocked allCycles of
           Inl err \<Rightarrow> Inl err
         | Inr (cycles, allCycles') \<Rightarrow>
             cycles_loop e now graphID options startNode path blocked rest
               (newCycles @ cycles) allCycles')
      else cycles_loop e now graphID options startNode path blocked rest newCycles allCycles)"
  by pat_completeness auto
termination
proof (relation "inv_image (less_than <*lex*> less_than <*lex*> less_than) cycles_measure")
  show "wf (inv_image (less_than <*lex*> less_than <*lex*> less_than) cycles_measure)"
    by (intro wf_inv_image wf_lex_prod wf_less_than)
next
  fix e now graphID options startNode currentNode path blocked allCycles connectedEdges
  assume "BadgerEngine_GetOutgoingEdges e now graphID currentNode = Inr connectedEdges"
  then show "(Inr (e, now, graphID, options, startNode, path, insert currentNode blocked,
                   filter_edge_types (EdgeTypes options) connectedEdges, [], allCycles),
              Inl (e, now, graphID, options, startNode, currentNode, path, blocked, allCycles))
             \<in> inv_image (less_than <*lex*> less_than <*lex*> less_than) cycles_measure"
    by (simp add: cycles_measure_def cycles_measure_enter)
next
  fix e now graphID options startNode path blocked and edge :: Edge and rest newCycles allCycles
  have "card ((edge_endpoints e \<union> Edge.ToNodeID ` set rest) - blocked)
          \<le> card ((edge_endpoints e \<union> Edge.ToNodeID ` set (edge # rest)) - blocked)"
    by (rule cycles_measure_rest)
  then show "(Inr (e, now, graphID, options, startNode, path, blocked, rest,
                   newCycles @ [path @ [startNode]], allCycles @ [path @ [startNode]]),
              Inr (e, now, graphID, options, startNode, path, blocked, edge # rest, newCycles,
                   allCycles))
             \<in> inv_image (less_than <*lex*> less_than <*lex*> less_than) cycles_measure"
    by (auto simp: cycles_measure_def)
next
  fix e now graphID options startNode path blocked and edge :: Edge and rest newCycles allCycles
  assume "Edge.ToNodeID edge \<notin> blocked"
  then have "card (edge_endpoints e - insert (Edge.ToNodeID edge) blocked)
               < card ((edge_endpoints e \<union> Edge.ToNodeID ` set (edge # rest)) - blocked)"
    by (rule cycles_measure_descend)
  then show "(Inl (e, now, graphID, options, startNode, Edge.ToNodeID edge,
                   path @ [Edge.ToNodeID edge], blocked, allCycles),
              Inr (e, now, graphID, options, startNode, path, blocked, edge # rest, newCycles,
                   allCycles))
             \<in> inv_image (less_than <*lex*> less_than <*lex*> less_than) cycles_measure"
    by (simp add: cycles_measure_def)
next
  fix e now graphID options startNode path blocked and edge :: Edge
    and rest newCycles allCycles cycles allCycles'
  have "card ((edge_endpoints e \<union> Edge.ToNodeID ` set rest) - blocked)
          \<le> card ((edge_endpoints e \<union> Edge.ToNodeID ` set (edge # rest)) - blocked)"
    by (rule cycles_measure_rest)
  then show "(Inr (e, now, graphID, options, startNode, path, blocked, rest,
                   newCycles @ cycles, allCycles'),
              Inr (e, now, graphID, options, startNode, path, blocked, edge # rest, newCycles,
                   allCycles))
             \<in> inv_image (less_than <*lex*> less_than <*lex*> less_than) cycles_measure"
    by (auto simp: cycles_measure_def)
next
  fix e now graphID options startNode path blocked and edge :: Edge and rest newCycles allCycles
  have "card ((edge_endpoints e \<union> Edge.ToNodeID ` set rest) - blocked)
          \<le> card ((edge_endpoints e \<union> Edge.ToNodeID ` set (edge # rest)) - blocked)"
    by (rule cycles_measure_rest)
  then show "(Inr (e, now, graphID, options, startNode, path, blocked, rest, newCycles, allCycles),
              Inr (e, now, graphID, options, startNode, path, blocked, edge # rest, newCycles,
                   allCycles))
             \<in> inv_image (less_than <*lex*> less_than <*lex*> less_than) cycles_measure"
    by (auto simp: cycles_measure_def)
qed

declare findCyclesRecursive.simps [simp del]

text \<open>
  \<open>normalizeCycle\<close>. The loop looks for the first position of the least identifier,
  in the byte order of Go strings. The appends of the function write either into a new
  array or the value that the cell already holds, so the argument is left as it was.
\<close>

function minIndex_loop :: "NodeID list \<Rightarrow> nat \<Rightarrow> nat \<Rightarrow> nat" where
  "minIndex_loop cycleNodes i minIndex =
     (if i < length cycleNodes then
        minIndex_loop cycleNodes (i + 1)
          (if cycleNodes ! i < cycleNodes ! minIndex then i else minIndex)
      else minIndex)"
  by pat_completeness auto
termination
  by (relation "measure (\<lambda>(cycleNodes, i, minIndex). length cycleNodes - i)") auto

declare minIndex_loop.simps [simp del]

definition normalizeCycle :: "NodeID list \<Rightarrow> NodeID list" where
  "normalizeCycle path =
     (if length path \<le> 1 then path
      else
        (let cycleNodes = take (length path - 1) path;
             minIndex = minIndex_loop cycleNodes 1 0;
             rotated = drop minIndex cycleNodes @ take minIndex cycleNodes
         in rotated @ [rotated ! 0]))"

fun Join :: "string list \<Rightarrow> string \<Rightarrow> string" where
  "Join [] sep = ''''"
| "Join [s] sep = s"
| "Join (s # t # rest) sep = s @ sep @ Join (t # rest) sep"

definition cycleToString :: "NodeID list \<Rightarrow> string" where
  "cycleToString path = Join path ''->''"

text \<open>
  The map \<open>uniqueCycles\<close> as an association list: an assignment replaces the value of
  a key that is there and adds a new key at the end. Go leaves the order in which a map
  is read open; the model reads it in the order the keys came in.
\<close>

fun map_assign :: "(string \<times> 'v) list \<Rightarrow> string \<Rightarrow> 'v \<Rightarrow> (string \<times> 'v) list" where
  "map_assign [] k v = [(k, v)]"
| "map_assign ((k', v') # m) k v =
     (if k' = k then (k, v) # m else (k', v') # map_assign m k v)"

fun uniqueCycles_loop ::
    "NodeID list list \<Rightarrow> (string \<times> NodeID list) list \<Rightarrow> (string \<times> NodeID list) list" where
  "uniqueCycles_loop [] uniqueCycles = uniqueCycles"
| "uniqueCycles_loop (cycle # rest) uniqueCycles =
     (let normalized = normalizeCycle cycle
      in uniqueCycles_loop rest (map_assign uniqueCycles (cycleToString normalized) normalized))"

text \<open>
  The loop of \<open>FindAllCycles\<close> over the nodes of the graph. Each search starts with a
  path of its start node and a map of its own; the cycles it returns are appended to
  \<open>allCycles\<close>, to which the search has already added them.
\<close>

fun allNodes_loop ::
    "BadgerEngine \<Rightarrow> Time \<Rightarrow> GraphID \<Rightarrow> TraversalOptions \<Rightarrow> Node list \<Rightarrow> NodeID list list
      \<Rightarrow> error + NodeID list list" where
  "allNodes_loop e now graphID options [] allCycles = Inr allCycles"
| "allNodes_loop e now graphID options (node # rest) allCycles =
     (case findCyclesRecursive e now graphID options (Node.ID node) (Node.ID node)
             [Node.ID node] {} allCycles of
        Inl err \<Rightarrow> Inl err
      | Inr (cycles, allCycles') \<Rightarrow>
          allNodes_loop e now graphID options rest (allCycles' @ cycles))"

definition FindAllCycles ::
    "BadgerEngine \<Rightarrow> Time \<Rightarrow> GraphID \<Rightarrow> TraversalOptions option \<Rightarrow> error + NodeID list list" where
  "FindAllCycles e now graphID options =
     (let options = (case options of None \<Rightarrow> forward_options | Some options \<Rightarrow> options)
      in case BadgerEngine_ListNodes e now graphID of
           Inl err \<Rightarrow> Inl (Wrap ''failed to list nodes for cycle detection: '' err)
         | Inr allNodes \<Rightarrow>
             (case allNodes_loop e now graphID options allNodes [] of
                Inl err \<Rightarrow> Inl err
              | Inr allCycles \<Rightarrow> Inr (map snd (uniqueCycles_loop allCycles []))))"

definition HasCycles ::
    "BadgerEngine \<Rightarrow> Time \<Rightarrow> GraphID \<Rightarrow> TraversalOptions option \<Rightarrow> error + bool" where
  "HasCycles e now graphID options =
     (case FindAllCycles e now graphID options of
        Inl err \<Rightarrow> Inl err
      | Inr cycles \<Rightarrow> Inr (length cycles > 0))"

section \<open>Replies (redis/protocol/response.go)\<close>

text \<open>A \<open>Response\<close> carries its type tag and the one field that the tag selects.\<close>

datatype Response =
    StringResponse string
  | IntResponse int
  | ArrayResponse "string list"
  | NestedArrayResponse "string list list"
  | BulkResponse string
  | NullResponse
  | ErrorResponse string

section \<open>Analysis commands (redis/commands/analysis.go)\<close>

definition buildArrow :: "NodeID \<Rightarrow> NodeID \<Rightarrow> Edge \<Rightarrow> string" where
  "buildArrow fromNode toNode edge =
     (if Edge.FromNodeID edge = fromNode \<and> Edge.ToNodeID edge = toNode then ''->''
      else if Edge.ToNodeID edge = fromNode \<and> Edge.FromNodeID edge = toNode then ''<-''
      else ''->'')"

text \<open>
  The loop that fetches the node of every identifier of a path. \<open>graphID\<close> is the graph
  the caller looks the nodes up in.
\<close>

fun path_node_details ::
    "BadgerEngine \<Rightarrow> Time \<Rightarrow> GraphID \<Rightarrow> NodeID list \<Rightarrow> error + Node list" where
  "path_node_details e now graphID [] = Inr []"
| "path_node_details e now graphID (nodeID # rest) =
     (case BadgerEngine_GetNode e now graphID nodeID of
        Inl err \<Rightarrow> Inl (Errorf (''failed to get node '' @ nodeID @ '': '' @ Error err))
      | Inr node \<Rightarrow>
          (case path_node_details e now graphID rest of
             Inl err \<Rightarrow> Inl err
           | Inr nodes \<Rightarrow> Inr (node # nodes)))"

text \<open>
  The string builder loop of \<open>buildMultiPathResponse\<close> from index \<open>i\<close> on:
  \<open>nodeDetails\<close> are the nodes not yet written and \<open>n\<close> is their number at the
  start.
\<close>

fun multi_path_string ::
    "BadgerEngine \<Rightarrow> Time \<Rightarrow> GraphID \<Rightarrow> EdgeID list \<Rightarrow> nat \<Rightarrow> nat \<Rightarrow> Node list \<Rightarrow> string" where
  "multi_path_string e now graphID edgeIDs n i [] = ''''"
| "multi_path_string e now graphID edgeIDs n i (node # rest) =
     Node.ID node @ '':'' @ Node.Type node @
     (if i < n - 1 \<and> i < length edgeIDs then
        (case BadgerEngine_GetEdge e now graphID (edgeIDs ! i) of
           Inr edge \<Rightarrow>
             (let arrow = buildArrow (Node.ID node) (Node.ID (hd rest)) edge
              in arrow @ Edge.ID edge @ '':'' @ Edge.Type edge @ arrow)
         | Inl err \<Rightarrow> ''->unknown:unknown->'')
      else '''') @
     multi_path_string e now graphID edgeIDs n (i + 1) rest"

text \<open>
  \<open>buildMultiPathResponse\<close>. The nodes and edges of a path are fetched from the graph
  \<open>models.GraphID(pathResult.FromNodeID)\<close>.
\<close>

fun multi_path_strings :: "BadgerEngine \<Rightarrow> Time \<Rightarrow> PathResult list \<Rightarrow> error + string list" where
  "multi_path_strings e now [] = Inr []"
| "multi_path_strings e now (pathResult # rest) =
     (case path_node_details e now (PathResult.FromNodeID pathResult) (PathResult.Path pathResult) of
        Inl err \<Rightarrow> Inl err
      | Inr nodeDetails \<Rightarrow>
          (case multi_path_strings e now rest of
             Inl err \<Rightarrow> Inl err
           | Inr strings \<Rightarrow>
               Inr (multi_path_string e now (PathResult.FromNodeID pathResult)
                      (PathResult.Edges pathResult) (length nodeDetails) 0 nodeDetails
                    # strings)))"

definition buildMultiPathResponse ::
    "BadgerEngine \<Rightarrow> Time \<Rightarrow> PathResult list \<Rightarrow> error + Response" where
  "buildMultiPathResponse e now allPaths =
     (case multi_path_strings e now allPaths of
        Inl err \<Rightarrow> Inl err
      | Inr strings \<Rightarrow> Inr (ArrayResponse (itoa (length allPaths) # strings)))"

definition buildSimplePathResponse ::
    "BadgerEngine \<Rightarrow> Time \<Rightarrow> GraphID \<Rightarrow> PathResult \<Rightarrow> error + Response" where
  "buildSimplePathResponse e now graphID pathResult =
     (if length (PathResult.Path pathResult) = 0 then Inr NullResponse
      else
        (case path_node_details e now graphID (PathResult.Path pathResult) of
           Inl err \<Rightarrow> Inl err
         | Inr nodeDetails \<Rightarrow>
             Inr (ArrayResponse (map (\<lambda>node. Node.ID node @ '':'' @ Node.Type node) nodeDetails))))"

text \<open>The loop over the optional arguments, from index 3 on.\<close>

fun parse_format :: "string list \<Rightarrow> string \<Rightarrow> error + string" where
  "parse_format (arg # val # rest) format =
     (if arg = ''FORMAT'' then
        (if val \<noteq> ''simple'' \<and> val \<noteq> ''detailed'' then
           Inl (Errorf (''invalid FORMAT: '' @ val @ '' (must be 'simple' or 'detailed')''))
         else parse_format rest val)
      else parse_format (val # rest) format)"
| "parse_format args format = Inr format"

text \<open>
  \<open>handleShortestPath\<close>, the handler of \<open>ANALYSIS.SHORTESTPATH\<close>; \<open>None\<close> stands
  for a call that does not return.
\<close>

definition handleShortestPath ::
    "BadgerEngine \<Rightarrow> Time \<Rightarrow> string list \<Rightarrow> (error + Response) option" where
  "handleShortestPath e now args =
     (if length args < 3 then
        Some (Inl (Errorf ''ANALYSIS.SHORTESTPATH requires at least 3 arguments: graph, from, to''))
      else
        (let graphID = args ! 0; fromNodeID = args ! 1; toNodeID = args ! 2
         in case parse_format (drop 3 args) ''detailed'' of
              Inl err \<Rightarrow> Some (Inl err)
            | Inr format \<Rightarrow>
                (case GetShortestPath e now graphID fromNodeID toNodeID None of
                   None \<Rightarrow> None
                 | Some (Inl err) \<Rightarrow>
                     Some (Inl (Errorf (''failed to compute shortest path: '' @ Error err)))
                 | Some (Inr pathResult) \<Rightarrow>
                     if format = ''simple'' then
                       Some (buildSimplePathResponse e now graphID pathResult)
                     else
                       (case AllShortestPaths e now graphID fromNodeID toNodeID of
                          None \<Rightarrow> None
                        | Some (Inl err) \<Rightarrow>
                            Some (Inl (Errorf (''failed to find all shortest paths: '' @ Error err)))
                        | Some (Inr allPaths) \<Rightarrow>
                            if length allPaths = 0 then Some (Inr NullResponse)
                            else Some (buildMultiPathResponse e now allPaths)))))"

section \<open>Concrete inputs\<close>

text \<open>Builders for the nodes, edges and stores of the examples below.\<close>

definition at_time :: "nat \<Rightarrow> nat \<Rightarrow> nat \<Rightarrow> Time" where
  "at_time h m s =
     \<lparr>year = 2025, month = 1, day = 1, hour = h, minute = m, second = s, nanosecond = 0\<rparr>"

definition mkNode :: "NodeID \<Rightarrow> NodeType \<Rightarrow> Time option \<Rightarrow> Node" where
  "mkNode i ty ex =
     \<lparr>Node.ID = i, Type = ty, Attributes = [], CreatedAt = at_time 0 0 0,
      UpdatedAt = at_time 0 0 0, ExpiresAt = ex\<rparr>"

definition mkEdge :: "EdgeID \<Rightarrow> EdgeType \<Rightarrow> NodeID \<Rightarrow> NodeID \<Rightarrow> Time option \<Rightarrow> Edge" where
  "mkEdge i ty f t ex =
     \<lparr>Edge.ID = i, Type = ty, FromNodeID = f, ToNodeID = t, Attributes = [],
      CreatedAt = at_time 0 0 0, UpdatedAt = at_time 0 0 0, ExpiresAt = ex\<rparr>"

definition opened :: BadgerEngine where
  "opened = \<lparr>db = Some []\<rparr>"

text \<open>A store with the single node \<open>n\<close> of graph \<open>g\<close>, expiring at 10:45:00.\<close>

definition ttl_engine :: BadgerEngine where
  "ttl_engine =
     fst (BadgerEngine_CreateNode opened ''g'' (mkNode ''n'' ''service'' (Some (at_time 10 45 0))))"

text \<open>
  Node \<open>a\<close> of graph \<open>g\<close> created with type \<open>service\<close>; then created again with
  type \<open>database\<close>, and, for comparison, updated to type \<open>database\<close>.
\<close>

definition typed_engine :: BadgerEngine where
  "typed_engine = fst (BadgerEngine_CreateNode opened ''g'' (mkNode ''a'' ''service'' None))"

definition recreated_engine :: BadgerEngine where
  "recreated_engine = fst (BadgerEngine_CreateNode typed_engine ''g'' (mkNode ''a'' ''database'' None))"

definition updated_engine :: BadgerEngine where
  "updated_engine =
     fst (BadgerEngine_UpdateNode typed_engine (at_time 10 0 0) ''g'' (mkNode ''a'' ''database'' None))"

text \<open>
  Graph \<open>g\<close> with the nodes \<open>a\<close>, \<open>a:b\<close> and \<open>c\<close> and the edge \<open>e1\<close> from
  \<open>a:b\<close> to \<open>c\<close>.
\<close>

definition colon_engine :: BadgerEngine where
  "colon_engine =
     (let e1 = fst (BadgerEngine_CreateNode opened ''g'' (mkNode ''a'' ''service'' None));
          e2 = fst (BadgerEngine_CreateNode e1 ''g'' (mkNode ''a:b'' ''service'' None));
          e3 = fst (BadgerEngine_CreateNode e2 ''g'' (mkNode ''c'' ''service'' None))
      in fst (BadgerEngine_CreateEdge e3 (at_time 10 0 0) ''g''
                (mkEdge ''e1'' ''calls'' ''a:b'' ''c'' None)))"

text \<open>A node created under the graph identifier \<open>ghost\<close>, for which no graph record exists.\<close>

definition ghost_engine :: BadgerEngine where
  "ghost_engine = fst (BadgerEngine_CreateNode opened ''ghost'' (mkNode ''a'' ''service'' None))"



definition typed_store :: KVS where
  "typed_store = fst (BadgerTransaction_CreateNode [] ''g'' (mkNode ''a'' ''service'' None))"

text \<open>
  The linear chain: graph \<open>g\<close> with the nodes \<open>a:service\<close>, \<open>b:service\<close> and
  \<open>c:database\<close> and the edges \<open>ab\<close> (a to b, \<open>calls\<close>) and \<open>bc\<close> (b to c,
  \<open>writes_to\<close>).
\<close>

definition chain_store :: KVS where
  "chain_store =
     (let t1 = fst (BadgerTransaction_CreateNode [] ''g'' (mkNode ''a'' ''service'' None));
          t2 = fst (BadgerTransaction_CreateNode t1 ''g'' (mkNode ''b'' ''service'' None));
          t3 = fst (BadgerTransaction_CreateNode t2 ''g'' (mkNode ''c'' ''database'' None));
          t4 = fst (BadgerTransaction_CreateEdge t3 (at_time 10 0 0) ''g''
                      (mkEdge ''ab'' ''calls'' ''a'' ''b'' None))
      in fst (BadgerTransaction_CreateEdge t4 (at_time 10 0 0) ''g''
                (mkEdge ''bc'' ''writes_to'' ''b'' ''c'' None)))"

definition chain_engine :: BadgerEngine where
  "chain_engine = \<lparr>db = Some chain_store\<rparr>"

text \<open>Default options with a stop predicate that holds for node \<open>b\<close> only.\<close>

definition stop_at_b :: TraversalOptions where
  "stop_at_b = default_options\<lparr>StopCondition := Some (\<lambda>node. Node.ID node = ''b'')\<rparr>"

text \<open>
  Graph \<open>g\<close> with the nodes \<open>s\<close>, \<open>a\<close>, \<open>b\<close>, \<open>t\<close>, \<open>x\<close> and the edges
  \<open>e1\<close> (s to a), \<open>e2\<close> (a to b), \<open>e3\<close> (b to t) and \<open>e4\<close> (b to x): the only
  forward path from \<open>s\<close> to \<open>t\<close> is s, a, b, t.
\<close>

definition asp_engine :: BadgerEngine where
  "asp_engine =
     (let t1 = fst (BadgerTransaction_CreateNode [] ''g'' (mkNode ''s'' ''service'' None));
          t2 = fst (BadgerTransaction_CreateNode t1 ''g'' (mkNode ''a'' ''service'' None));
          t3 = fst (BadgerTransaction_CreateNode t2 ''g'' (mkNode ''b'' ''service'' None));
          t4 = fst (BadgerTransaction_CreateNode t3 ''g'' (mkNode ''t'' ''service'' None));
          t5 = fst (BadgerTransaction_CreateNode t4 ''g'' (mkNode ''x'' ''service'' None));
          t6 = fst (BadgerTransaction_CreateEdge t5 (at_time 10 0 0) ''g'' (mkEdge ''e1'' ''calls'' ''s'' ''a'' None));
          t7 = fst (BadgerTransaction_CreateEdge t6 (at_time 10 0 0) ''g'' (mkEdge ''e2'' ''calls'' ''a'' ''b'' None));
          t8 = fst (BadgerTransaction_CreateEdge t7 (at_time 10 0 0) ''g'' (mkEdge ''e3'' ''calls'' ''b'' ''t'' None));
          t9 = fst (BadgerTransaction_CreateEdge t8 (at_time 10 0 0) ''g'' (mkEdge ''e4'' ''calls'' ''b'' ''x'' None))
      in \<lparr>db = Some t9\<rparr>)"

text \<open>
  A graph of the nodes \<open>a\<close> and \<open>a:b\<close> whose one edge runs from \<open>a:b\<close> to
  \<open>a\<close>.
\<close>

definition lone_edge_engine :: BadgerEngine where
  "lone_edge_engine =
     (let e1 = fst (BadgerEngine_CreateNode opened ''g'' (mkNode ''a'' ''service'' None));
          e2 = fst (BadgerEngine_CreateNode e1 ''g'' (mkNode ''a:b'' ''service'' None))
      in fst (BadgerEngine_CreateEdge e2 (at_time 10 0 0) ''g''
                (mkEdge ''e1'' ''calls'' ''a:b'' ''a'' None)))"

text \<open>
  The one node \<open>b\<close> of graph \<open>g:a\<close>; and graph \<open>g:a\<close> with the nodes \<open>x\<close> and
  \<open>y\<close> and the edge \<open>b\<close> between them. Nothing is created in graph \<open>g\<close>.
\<close>

definition alias_engine :: BadgerEngine where
  "alias_engine = fst (BadgerEngine_CreateNode opened ''g:a'' (mkNode ''b'' ''service'' None))"

definition alias_edge_engine :: BadgerEngine where
  "alias_edge_engine =
     (let e1 = fst (BadgerEngine_CreateNode opened ''g:a'' (mkNode ''x'' ''service'' None));
          e2 = fst (BadgerEngine_CreateNode e1 ''g:a'' (mkNode ''y'' ''service'' None))
      in fst (BadgerEngine_CreateEdge e2 (at_time 10 0 0) ''g:a''
                (mkEdge ''b'' ''calls'' ''x'' ''y'' None)))"

section \<open>Properties\<close>

subsection \<open>The stores of the examples\<close>

lemma db_typed_engine: "db typed_engine = Some typed_store"
  by (simp add: typed_engine_def typed_store_def BadgerEngine_CreateNode_def engine_update_def
        Update_def opened_def BadgerTransaction_CreateNode_def Let_def)


subsection \<open>Aborted writes\<close>

text \<open>
  If fetching the source or the target node fails, \<open>CreateEdge\<close> returns an error and
  the engine, hence its store, is the one it was called on.
\<close>

lemma CreateEdge_fetch_failure_aborts:
  assumes "isl (BadgerEngine_GetNode e now g (Edge.FromNodeID edge))
           \<or> isl (BadgerEngine_GetNode e now g (Edge.ToNodeID edge))"
  shows "\<exists>err. BadgerEngine_CreateEdge e now g edge = (e, Some err)"
proof (cases "db e")
  case None
  then show ?thesis
    by (simp add: BadgerEngine_CreateEdge_def engine_update_closed)
next
  case (Some st)
  with assms have missing: "isl (BadgerTransaction_GetNode st now g (Edge.FromNodeID edge))
           \<or> isl (BadgerTransaction_GetNode st now g (Edge.ToNodeID edge))"
    by (simp add: BadgerEngine_GetNode_def)
  have "\<exists>err. snd (BadgerTransaction_CreateEdge st now g edge) = Some err"
  proof (cases "BadgerTransaction_GetNode st now g (Edge.FromNodeID edge)")
    case (Inl err)
    then show ?thesis by (simp add: BadgerTransaction_CreateEdge_def)
  next
    case (Inr fromNode)
    with missing obtain err where "BadgerTransaction_GetNode st now g (Edge.ToNodeID edge) = Inl err"
      by (cases "BadgerTransaction_GetNode st now g (Edge.ToNodeID edge)") simp_all
    with Inr show ?thesis by (simp add: BadgerTransaction_CreateEdge_def)
  qed
  then obtain err where "snd (BadgerTransaction_CreateEdge st now g edge) = Some err" ..
  then have "BadgerEngine_CreateEdge e now g edge = (e, Some err)"
    unfolding BadgerEngine_CreateEdge_def by (rule engine_update_error[OF _ Some])
  then show ?thesis ..
qed

subsection \<open>The runs of the depth-first loop\<close>

lemma dfs_runs_ended: "dfs_stack s = [] \<Longrightarrow> dfs_runs n e now g options s = Inr s"
  by (cases n) simp_all

lemma dfs_runs_add:
  "dfs_runs (n + m) e now g options s0
     = (case dfs_runs n e now g options s0 of
          Inl err \<Rightarrow> Inl err
        | Inr s \<Rightarrow> dfs_runs m e now g options s)"
proof (induction n arbitrary: s0)
  case 0
  show ?case by simp
next
  case (Suc n)
  show ?case
  proof (cases "dfs_stack s0 = []")
    case True
    then show ?thesis by (simp add: dfs_runs_ended)
  next
    case False
    then show ?thesis
      by (cases "dfs_step e now g options s0") (simp_all add: Suc.IH)
  qed
qed

lemma dfs_runs_loop:
  "dfs_runs n e now g options s0 = Inr s
     \<Longrightarrow> dfs_loop e now g options s0 = dfs_loop e now g options s"
proof (induction n arbitrary: s0)
  case 0
  then show ?case by simp
next
  case (Suc n)
  show ?case
  proof (cases "dfs_stack s0 = []")
    case True
    with Suc.prems show ?thesis by simp
  next
    case False
    with Suc.prems obtain s1 where step: "dfs_step e now g options s0 = Inr s1"
      and rest: "dfs_runs n e now g options s1 = Inr s"
      by (cases "dfs_step e now g options s0") simp_all
    from False step have "dfs_loop e now g options s0 = dfs_loop e now g options s1"
      by (simp add: dfs_loop.simps[of e now g options s0])
    also from rest have "\<dots> = dfs_loop e now g options s" by (rule Suc.IH)
    finally show ?thesis .
  qed
qed

lemma dfs_runs_invariant:
  assumes "dfs_runs n e now g options s0 = Inr s" and "P s0"
    and step: "\<And>t t'. P t \<Longrightarrow> dfs_stack t \<noteq> [] \<Longrightarrow> dfs_step e now g options t = Inr t' \<Longrightarrow> P t'"
  shows "P s"
  using assms(1,2)
proof (induction n arbitrary: s0)
  case 0
  then show ?case by simp
next
  case (Suc n)
  show ?case
  proof (cases "dfs_stack s0 = []")
    case True
    with Suc.prems show ?thesis by simp
  next
    case False
    with Suc.prems(1) obtain s1 where s1: "dfs_step e now g options s0 = Inr s1"
      and rest: "dfs_runs n e now g options s1 = Inr s"
      by (cases "dfs_step e now g options s0") simp_all
    from Suc.prems(2) False s1 have "P s1" by (rule step)
    with rest show ?thesis by (rule Suc.IH)
  qed
qed

lemma dfs_loop_invariant:
  assumes "dfs_loop e now g options s0 = Inr s" and "P s0"
    and step: "\<And>t t'. P t \<Longrightarrow> dfs_stack t \<noteq> [] \<Longrightarrow> dfs_step e now g options t = Inr t' \<Longrightarrow> P t'"
  shows "P s"
  using assms
proof (induction e now g options s0 rule: dfs_loop.induct)
  case (1 e now g options s0)
  show ?case
  proof (cases "dfs_stack s0 = []")
    case True
    with "1.prems" show ?thesis by (simp add: dfs_loop.simps[of e now g options s0])
  next
    case False
    with "1.prems"(1) obtain s1 where s1: "dfs_step e now g options s0 = Inr s1"
      and rest: "dfs_loop e now g options s1 = Inr s"
      by (cases "dfs_step e now g options s0") (simp_all add: dfs_loop.simps[of e now g options s0])
    from "1.prems"(2) False s1 have "P s1" by (rule "1.prems"(3))
    from False s1 rest this "1.prems"(3) show ?thesis by (rule "1.IH")
  qed
qed

text \<open>The identifiers of the path are visited.\<close>

lemma dfs_step_path_visited:
  assumes "dfs_step e now g options s = Inr s'" and "set (dfs_path s) \<subseteq> dfs_visited s"
  shows "set (dfs_path s') \<subseteq> dfs_visited s'"
  using assms(1)
proof (cases rule: dfs_step_Inr)
  case skip
  with assms(2) show ?thesis by simp
next
  case (stop node)
  with assms(2) show ?thesis by auto
next
  case (expand node ces)
  with assms(2) show ?thesis
    by (cases "node_type_match (NodeTypes options) node") (auto simp: push_edges_def Let_def)
qed

text \<open>
  A visited identifier that is not on the path does not come onto it, and a node on
  which the stop predicate holds does not come into the list of nodes.
\<close>

lemma dfs_step_left_out:
  assumes "dfs_step e now g options s = Inr s'" and "stop_at options node"
    and "current \<in> dfs_visited s \<and> current \<notin> set (dfs_path s) \<and> node \<notin> set (dfs_nodes s)"
  shows "current \<in> dfs_visited s' \<and> current \<notin> set (dfs_path s') \<and> node \<notin> set (dfs_nodes s')"
  using assms(1)
proof (cases rule: dfs_step_Inr)
  case skip
  with assms(3) show ?thesis by simp
next
  case (stop node')
  with assms(3) show ?thesis by simp
next
  case (expand node' ces)
  from expand(1) assms(3) have "fst (last (dfs_stack s)) \<noteq> current" by auto
  moreover from expand(3) assms(2) have "node' \<noteq> node" by auto
  ultimately show ?thesis using assms(3) expand(5)
    by (cases "node_type_match (NodeTypes options) node'") (auto simp: push_edges_def Let_def)
qed

lemma dfs_step_inv:
  assumes "dfs_step e now g options s = Inr s'" and inv: "dfs_inv e now g options s"
  shows "dfs_inv e now g options s'"
  using assms(1)
proof (cases rule: dfs_step_Inr)
  case skip
  with inv show ?thesis by (simp add: dfs_inv_def)
next
  case (stop node)
  with inv show ?thesis by (simp add: dfs_inv_def)
next
  case (expand node ces)
  let ?cur = "fst (last (dfs_stack s))"
  have n: "\<forall>x \<in> set (dfs_nodes s'). \<not> stop_at options x"
    using inv expand(3,5) by (auto simp: dfs_inv_def push_edges_def Let_def split: if_splits)
  have p: "\<forall>n \<in> set (dfs_path s'). \<exists>node. BadgerEngine_GetNode e now g n = Inr node \<and> \<not> stop_at options node"
    using inv expand(2,3,5) by (auto simp: dfs_inv_def push_edges_def Let_def split: if_splits)
  have old: "\<forall>edge \<in> set (dfs_edges s). \<exists>n node. BadgerEngine_GetNode e now g n = Inr node
            \<and> \<not> stop_at options node \<and> next_node (Direction options) n edge \<noteq> ''''"
    using inv by (simp add: dfs_inv_def)
  have "dfs_edges s' = dfs_edges s @ filter (\<lambda>edge. next_node (Direction options) ?cur edge \<noteq> ''''
                                      \<and> next_node (Direction options) ?cur edge \<notin> insert ?cur (dfs_visited s))
                       (rev (filter_edge_types (EdgeTypes options) ces))"
    using expand(5) by (simp add: push_edges_def Let_def)
  then have ed: "\<forall>edge \<in> set (dfs_edges s'). \<exists>n node. BadgerEngine_GetNode e now g n = Inr node
            \<and> \<not> stop_at options node \<and> next_node (Direction options) n edge \<noteq> ''''"
    using old expand(2,3) by auto
  from n p ed show ?thesis by (simp add: dfs_inv_def)
qed

lemma dfs_loop_inv:
  assumes "dfs_loop e now g options s = Inr s'" and "dfs_inv e now g options s"
  shows "dfs_inv e now g options s'"
  using assms
proof (induction e now g options s rule: dfs_loop.induct)
  case (1 e now g options s)
  show ?case
  proof (cases "dfs_stack s = []")
    case True
    with "1.prems" show ?thesis by (simp add: dfs_loop.simps[of e now g options s])
  next
    case False
    with "1.prems"(1) obtain s1 where step: "dfs_step e now g options s = Inr s1"
      and rest: "dfs_loop e now g options s1 = Inr s'"
      by (cases "dfs_step e now g options s") (simp_all add: dfs_loop.simps[of e now g options s])
    from step "1.prems"(2) have "dfs_inv e now g options s1" by (rule dfs_step_inv)
    with False step rest show ?thesis by (rule "1.IH")
  qed
qed

subsection \<open>Claims\<close>

text \<open>
  C1 (the TTL sweep deletes only entries whose timestamp has passed). The sweep compares
  \<open>parts[1]\<close> of the key split at every colon, which is the timestamp cut at its own
  first colon (date and hour), with the full timestamp of the current time. At 10:30:00
  the node \<open>n\<close>, whose \<open>ExpiresAt\<close> is 10:45:00 of the same day, is readable before
  the sweep and deleted by it.
\<close>

theorem C1_sweep_deletes_unexpired_node:
  "Before (at_time 10 30 0) (at_time 10 45 0)
   \<and> BadgerEngine_GetNode ttl_engine (at_time 10 30 0) ''g'' ''n''
       = Inr (mkNode ''n'' ''service'' (Some (at_time 10 45 0)))
   \<and> Cleanup ttl_engine (at_time 10 30 0) = Some opened
   \<and> BadgerEngine_GetNode opened (at_time 10 30 0) ''g'' ''n'' = Inl (Errorf ''node not found: n'')"
  by code_simp

text \<open>
  C3 (index coherence of nodes; \<open>create_node\<close> on an existing identifier with a new type
  removes the old type-index entry as \<open>update_node\<close> does). \<open>CreateNode\<close> never reads
  the stored node and deletes nothing: after node \<open>a\<close> of type \<open>service\<close> is created
  again with type \<open>database\<close>, the entry \<open>ti:n:g:service:a\<close> is still there and
  listing the type \<open>service\<close> returns the node of type \<open>database\<close>. \<open>UpdateNode\<close>
  on the same input removes the entry.
\<close>

theorem C3_create_node_keeps_old_type_index:
  "BadgerEngine_ListNodesByType recreated_engine (at_time 10 0 0) ''g'' ''service''
     = Inr [mkNode ''a'' ''database'' None]
   \<and> BadgerEngine_ListNodesByType updated_engine (at_time 10 0 0) ''g'' ''service'' = Inr []"
  by code_simp

text \<open>
  C7 (\<open>create_edge\<close> fails whenever an endpoint does not resolve to an existing node of
  the same graph, and then adds no key). The key of a node joins the identifiers of the
  graph and of the node with a colon, and either may hold a colon: \<open>n:g:a:b\<close> is the key
  of node \<open>a:b\<close> of graph \<open>g\<close> and of node \<open>b\<close> of graph \<open>g:a\<close>. After node
  \<open>b\<close> of graph \<open>g:a\<close> is created, and nothing else, the store holds its record and
  its type-index entry. \<open>CreateEdge\<close> in graph \<open>g\<close> from \<open>a:b\<close> to \<open>a:b\<close>
  finds that record under the key of both endpoints; \<open>GetNode\<close> does not compare the
  identifier of the record, \<open>b\<close>, with the one asked for. The call succeeds and writes
  the edge record and its three index entries, although no node \<open>a:b\<close> of graph
  \<open>g\<close> was created.
\<close>

theorem C7_create_edge_accepts_missing_endpoint:
  "store_keys alias_engine = [''n:g:a:b'', ''ti:n:g:a:service:b'']
   \<and> BadgerEngine_GetNode alias_engine (at_time 10 0 0) ''g'' ''a:b''
       = Inr (mkNode ''b'' ''service'' None)
   \<and> snd (BadgerEngine_CreateEdge alias_engine (at_time 10 0 0) ''g''
             (mkEdge ''e1'' ''calls'' ''a:b'' ''a:b'' None)) = None
   \<and> store_keys (fst (BadgerEngine_CreateEdge alias_engine (at_time 10 0 0) ''g''
                        (mkEdge ''e1'' ''calls'' ''a:b'' ''a:b'' None)))
       = [''e:g:e1'', ''n:g:a:b'', ''ni:in:g:a:b:e1'', ''ni:out:g:a:b:e1'', ''ti:e:g:calls:e1'',
          ''ti:n:g:a:service:b'']
   \<and> BadgerEngine_GetEdge (fst (BadgerEngine_CreateEdge alias_engine (at_time 10 0 0) ''g''
                                 (mkEdge ''e1'' ''calls'' ''a:b'' ''a:b'' None)))
         (at_time 10 0 0) ''g'' ''e1''
       = Inr (mkEdge ''e1'' ''calls'' ''a:b'' ''a:b'' None)"
  by code_simp

text \<open>
  C8 (after \<open>delete_node(g, n)\<close> the edges incident on \<open>n\<close> are gone and every other
  edge is unchanged). The cascade walks the keys with the prefix \<open>ni:out:g:a:\<close>, which
  are also the adjacency keys of every node whose identifier starts with \<open>a:\<close>. Deleting
  node \<open>a\<close> succeeds and deletes the edge \<open>e1\<close> from \<open>a:b\<close> to \<open>c\<close>, which is not
  incident on \<open>a\<close>.
\<close>

theorem C8_delete_node_deletes_foreign_edge:
  "BadgerEngine_GetEdge colon_engine (at_time 10 0 0) ''g'' ''e1''
      = Inr (mkEdge ''e1'' ''calls'' ''a:b'' ''c'' None)
   \<and> snd (BadgerEngine_DeleteNode colon_engine (at_time 10 0 0) ''g'' ''a'') = None
   \<and> BadgerEngine_GetEdge (fst (BadgerEngine_DeleteNode colon_engine (at_time 10 0 0) ''g'' ''a''))
        (at_time 10 0 0) ''g'' ''e1'' = Inl (Errorf ''edge not found: e1'')"
  by code_simp

text \<open>
  C9 as stated (\<open>delete_graph\<close> on a graph identifier that does not exist returns success
  and leaves the store unchanged; \<open>delete_node\<close> and \<open>delete_edge\<close> on an identifier
  that does not exist return an error) fails in both halves. For \<open>ghost\<close> there is no
  graph record, yet node \<open>a\<close> was created under it: \<open>DeleteGraph\<close> succeeds and the
  store it leaves is empty, not the one it was given. No node \<open>a:b\<close> and no edge
  \<open>a:b\<close> of graph \<open>g\<close> was created, yet \<open>DeleteNode\<close> and \<open>DeleteEdge\<close> on
  them succeed: the keys they look up, \<open>n:g:a:b\<close> and \<open>e:g:a:b\<close>, are those of node
  \<open>b\<close> and of edge \<open>b\<close> of graph \<open>g:a\<close>, whose records the calls delete.
\<close>

theorem C9_counterexample:
  "BadgerEngine_GetGraph ghost_engine (at_time 10 0 0) ''ghost'' = Inl (Errorf ''graph not found: ghost'')
   \<and> BadgerEngine_DeleteGraph ghost_engine (at_time 10 0 0) ''ghost'' = (opened, None)
   \<and> ghost_engine \<noteq> opened
   \<and> store_keys alias_engine = [''n:g:a:b'', ''ti:n:g:a:service:b'']
   \<and> snd (BadgerEngine_DeleteNode alias_engine (at_time 10 0 0) ''g'' ''a:b'') = None
   \<and> store_keys (fst (BadgerEngine_DeleteNode alias_engine (at_time 10 0 0) ''g'' ''a:b''))
       = [''ti:n:g:a:service:b'']
   \<and> store_keys alias_edge_engine
       = [''e:g:a:b'', ''n:g:a:x'', ''n:g:a:y'', ''ni:in:g:a:y:b'', ''ni:out:g:a:x:b'',
          ''ti:e:g:a:calls:b'', ''ti:n:g:a:service:x'', ''ti:n:g:a:service:y'']
   \<and> snd (BadgerEngine_DeleteEdge alias_edge_engine (at_time 10 0 0) ''g'' ''a:b'') = None
   \<and> store_keys (fst (BadgerEngine_DeleteEdge alias_edge_engine (at_time 10 0 0) ''g'' ''a:b''))
       = [''n:g:a:x'', ''n:g:a:y'', ''ni:in:g:a:y:b'', ''ni:out:g:a:x:b'', ''ti:e:g:a:calls:b'',
          ''ti:n:g:a:service:x'', ''ti:n:g:a:service:y'']"
  by code_simp

text \<open>
  C9, amended: on an opened database, \<open>delete_graph\<close> on a graph identifier that has no
  graph record and no node or edge key under its prefixes returns success and leaves the
  store unchanged; \<open>delete_node\<close> and \<open>delete_edge\<close> on an identifier for which
  \<open>get_node\<close>, respectively \<open>get_edge\<close>, fails return an error and leave the store
  unchanged, and the two fail when the store holds no entry under the record key of the
  identifier.
\<close>

theorem C9_delete_absent:
  assumes opened: "db e = Some st"
  shows "(EncodeGraphKey g \<notin> fst ` set st
            \<and> (\<forall>k \<in> fst ` set st. \<not> HasPrefix k (CreateNodeIteratorPrefix g)
                                    \<and> \<not> HasPrefix k (CreateEdgeIteratorPrefix g))
          \<longrightarrow> BadgerEngine_DeleteGraph e now g = (e, None))
       \<and> (isl (BadgerEngine_GetNode e now g n)
          \<longrightarrow> (\<exists>err. BadgerEngine_DeleteNode e now g n = (e, Some err)))
       \<and> (isl (BadgerEngine_GetEdge e now g eid)
          \<longrightarrow> (\<exists>err. BadgerEngine_DeleteEdge e now g eid = (e, Some err)))
       \<and> (EncodeNodeKey g n \<notin> fst ` set st \<longrightarrow> isl (BadgerEngine_GetNode e now g n))
       \<and> (EncodeEdgeKey g eid \<notin> fst ` set st \<longrightarrow> isl (BadgerEngine_GetEdge e now g eid))"
proof (intro conjI impI)
  assume a: "EncodeGraphKey g \<notin> fst ` set st
            \<and> (\<forall>k \<in> fst ` set st. \<not> HasPrefix k (CreateNodeIteratorPrefix g)
                                    \<and> \<not> HasPrefix k (CreateEdgeIteratorPrefix g))"
  then have n: "iterate_prefix st now (CreateNodeIteratorPrefix g) = []"
    by (intro iterate_prefix_empty) blast
  from a have ed: "iterate_prefix st now (CreateEdgeIteratorPrefix g) = []"
    by (intro iterate_prefix_empty) blast
  from a have del: "txn_Delete st (EncodeGraphKey g) = st"
    by (simp add: txn_Delete_absent)
  show "BadgerEngine_DeleteGraph e now g = (e, None)"
    unfolding BadgerEngine_DeleteGraph_def
    by (rule engine_update_same[OF opened]) (simp add: n ed del)
next
  assume "isl (BadgerEngine_GetNode e now g n)"
  with opened obtain err where "BadgerTransaction_GetNode st now g n = Inl err"
    by (cases "BadgerTransaction_GetNode st now g n") (simp_all add: BadgerEngine_GetNode_def)
  then have "snd (BadgerTransaction_DeleteNode st now g n) = Some (Wrap ''node does not exist: '' err)"
    by (simp add: BadgerTransaction_DeleteNode_def)
  then have "BadgerEngine_DeleteNode e now g n = (e, Some (Wrap ''node does not exist: '' err))"
    unfolding BadgerEngine_DeleteNode_def by (rule engine_update_error[OF _ opened])
  then show "\<exists>err. BadgerEngine_DeleteNode e now g n = (e, Some err)" by blast
next
  assume "isl (BadgerEngine_GetEdge e now g eid)"
  with opened obtain err where "BadgerTransaction_GetEdge st now g eid = Inl err"
    by (cases "BadgerTransaction_GetEdge st now g eid") (simp_all add: BadgerEngine_GetEdge_def)
  then have "snd (BadgerTransaction_DeleteEdge st now g eid) = Some (Wrap ''edge does not exist: '' err)"
    by (simp add: BadgerTransaction_DeleteEdge_def)
  then have "BadgerEngine_DeleteEdge e now g eid = (e, Some (Wrap ''edge does not exist: '' err))"
    unfolding BadgerEngine_DeleteEdge_def by (rule engine_update_error[OF _ opened])
  then show "\<exists>err. BadgerEngine_DeleteEdge e now g eid = (e, Some err)" by blast
next
  assume "EncodeNodeKey g n \<notin> fst ` set st"
  then have "isl (BadgerTransaction_GetNode st now g n)" using GetNode_key by blast
  with opened show "isl (BadgerEngine_GetNode e now g n)" by (simp add: BadgerEngine_GetNode_def)
next
  assume "EncodeEdgeKey g eid \<notin> fst ` set st"
  then have "isl (BadgerTransaction_GetEdge st now g eid)" using GetEdge_key by blast
  with opened show "isl (BadgerEngine_GetEdge e now g eid)" by (simp add: BadgerEngine_GetEdge_def)
qed

theorem C9_witness:
  "db typed_engine = Some typed_store
   \<and> EncodeGraphKey ''h'' \<notin> fst ` set typed_store
   \<and> iterate_prefix typed_store (at_time 10 0 0) (CreateNodeIteratorPrefix ''h'') = []
   \<and> iterate_prefix typed_store (at_time 10 0 0) (CreateEdgeIteratorPrefix ''h'') = []
   \<and> BadgerEngine_DeleteGraph typed_engine (at_time 10 0 0) ''h'' = (typed_engine, None)
   \<and> EncodeNodeKey ''h'' ''b'' \<notin> fst ` set typed_store
   \<and> isl (BadgerEngine_GetNode typed_engine (at_time 10 0 0) ''h'' ''b'')
   \<and> (\<exists>err. BadgerEngine_DeleteNode typed_engine (at_time 10 0 0) ''h'' ''b'' = (typed_engine, Some err))
   \<and> EncodeEdgeKey ''h'' ''ab'' \<notin> fst ` set typed_store
   \<and> isl (BadgerEngine_GetEdge typed_engine (at_time 10 0 0) ''h'' ''ab'')
   \<and> (\<exists>err. BadgerEngine_DeleteEdge typed_engine (at_time 10 0 0) ''h'' ''ab'' = (typed_engine, Some err))"
proof -
  have h1: "EncodeGraphKey ''h'' \<notin> fst ` set typed_store"
    by code_simp
  have h2: "\<forall>k \<in> fst ` set typed_store. \<not> HasPrefix k (CreateNodeIteratorPrefix ''h'')
                                    \<and> \<not> HasPrefix k (CreateEdgeIteratorPrefix ''h'')"
    by code_simp
  have h3: "EncodeNodeKey ''h'' ''b'' \<notin> fst ` set typed_store"
    by code_simp
  have h4: "EncodeEdgeKey ''h'' ''ab'' \<notin> fst ` set typed_store"
    by code_simp
  have h5: "iterate_prefix typed_store (at_time 10 0 0) (CreateNodeIteratorPrefix ''h'') = []"
    using h2 by (intro iterate_prefix_empty) blast
  have h6: "iterate_prefix typed_store (at_time 10 0 0) (CreateEdgeIteratorPrefix ''h'') = []"
    using h2 by (intro iterate_prefix_empty) blast
  from h1 h2 h3 h4 h5 h6 db_typed_engine show ?thesis
    using C9_delete_absent [OF db_typed_engine, of "''h''" "at_time 10 0 0" "''b''" "''ab''"]
    by blast
qed



text \<open>
  C4 as stated (a node on which the stop predicate holds is not expanded but still
  appears in the returned node list and path) fails: the loop body \<open>continue\<close>s on the
  stop predicate before the node is appended. On the linear chain, with a predicate that
  holds for \<open>b\<close>, the search from \<open>a\<close> fetches \<open>b\<close> and returns the path
  \<open>[a]\<close>.
\<close>

theorem C4_counterexample:
  "BadgerEngine_GetNode chain_engine (at_time 10 0 0) ''g'' ''b'' = Inr (mkNode ''b'' ''service'' None)
   \<and> stop_at stop_at_b (mkNode ''b'' ''service'' None)
   \<and> DepthFirstSearch chain_engine (at_time 10 0 0) ''g'' ''a'' (Some stop_at_b)
       = Inr \<lparr>Nodes = [mkNode ''a'' ''service'' None],
               Edges = [mkEdge ''ab'' ''calls'' ''a'' ''b'' None],
               Path = [''a''], Distance = 0\<rparr>"
  by code_simp

text \<open>
  C4, amended: when the stop predicate returns true for a fetched node, that node is
  marked visited but is not expanded (none of its edges are followed from it) and is not
  added to the result. Let the loop of \<open>DepthFirstSearch\<close> have come, after \<open>n\<close> runs
  of its body, to a state \<open>s\<close> whose top of stack is a node that is not visited, within
  the depth bound, and fetched with the stop predicate true. Then the next run only pops
  the node and marks it visited: nothing is pushed and no node, edge or identifier is
  recorded. In every later state the node is visited, is not in the path and not in the
  list of nodes, and when it comes to the top of the stack again it is only popped. It is
  neither in the path nor in the nodes of the result, in which the stop predicate is
  false on every node and on the node of every identifier of the path.
\<close>

theorem C4_stop_node_left_out:
  assumes reached: "dfs_runs n e now g (resolve_options options) (dfs_start start) = Inr s"
    and top: "dfs_stack s \<noteq> []" "last (dfs_stack s) = (current, depth)"
    and fresh: "current \<notin> dfs_visited s" "\<not> depth_exceeded (resolve_options options) depth"
    and fetched: "BadgerEngine_GetNode e now g current = Inr node"
    and stop: "stop_at (resolve_options options) node"
  shows "dfs_step e now g (resolve_options options) s
           = Inr (s\<lparr>dfs_stack := butlast (dfs_stack s),
                     dfs_visited := insert current (dfs_visited s)\<rparr>)
     \<and> (\<forall>m t. dfs_runs (Suc n + m) e now g (resolve_options options) (dfs_start start) = Inr t
            \<longrightarrow> current \<in> dfs_visited t \<and> current \<notin> set (dfs_path t) \<and> node \<notin> set (dfs_nodes t)
                \<and> (\<forall>d. dfs_stack t \<noteq> [] \<and> last (dfs_stack t) = (current, d)
                       \<longrightarrow> dfs_step e now g (resolve_options options) t
                             = Inr (t\<lparr>dfs_stack := butlast (dfs_stack t)\<rparr>)))
     \<and> (\<forall>r. DepthFirstSearch e now g start options = Inr r
            \<longrightarrow> current \<notin> set (TraversalResult.Path r) \<and> node \<notin> set (Nodes r)
                \<and> (\<forall>x \<in> set (Nodes r). \<not> stop_at (resolve_options options) x)
                \<and> (\<forall>p \<in> set (TraversalResult.Path r).
                      \<exists>x. BadgerEngine_GetNode e now g p = Inr x
                        \<and> \<not> stop_at (resolve_options options) x))"
proof -
  let ?opts = "resolve_options options"
  let ?s' = "s\<lparr>dfs_stack := butlast (dfs_stack s), dfs_visited := insert current (dfs_visited s)\<rparr>"
  let ?out = "\<lambda>t. current \<in> dfs_visited t \<and> current \<notin> set (dfs_path t) \<and> node \<notin> set (dfs_nodes t)"
  have start_inv: "dfs_inv e now g ?opts (dfs_start start)"
    by (simp add: dfs_inv_def dfs_start_def)
  have step: "dfs_step e now g ?opts s = Inr ?s'"
    using top fresh fetched stop by (simp add: dfs_step_def Let_def)
  have "set (dfs_path s) \<subseteq> dfs_visited s"
    using reached
  proof (rule dfs_runs_invariant)
    show "set (dfs_path (dfs_start start)) \<subseteq> dfs_visited (dfs_start start)"
      by (simp add: dfs_start_def)
  next
    fix t t'
    assume "set (dfs_path t) \<subseteq> dfs_visited t" and "dfs_step e now g ?opts t = Inr t'"
    then show "set (dfs_path t') \<subseteq> dfs_visited t'" by (rule dfs_step_path_visited[rotated])
  qed
  with fresh(1) have not_on_path: "current \<notin> set (dfs_path s)" by auto
  have "dfs_inv e now g ?opts s"
    using reached start_inv
  proof (rule dfs_runs_invariant)
    fix t t'
    assume "dfs_inv e now g ?opts t" and "dfs_step e now g ?opts t = Inr t'"
    then show "dfs_inv e now g ?opts t'" by (rule dfs_step_inv[rotated])
  qed
  with stop have "node \<notin> set (dfs_nodes s)" by (auto simp: dfs_inv_def)
  with not_on_path have out: "?out ?s'" by simp
  have keep: "?out t'" if "?out t" and "dfs_step e now g ?opts t = Inr t'" for t t'
    using that(2) stop that(1) by (rule dfs_step_left_out)
  have next_state: "dfs_runs (Suc n) e now g ?opts (dfs_start start) = Inr ?s'"
    using dfs_runs_add[of n 1 e now g ?opts "dfs_start start"] reached top(1) step
    by simp
  have later: "?out t \<and> (\<forall>d. dfs_stack t \<noteq> [] \<and> last (dfs_stack t) = (current, d)
                       \<longrightarrow> dfs_step e now g ?opts t = Inr (t\<lparr>dfs_stack := butlast (dfs_stack t)\<rparr>))"
    if t: "dfs_runs (Suc n + m) e now g ?opts (dfs_start start) = Inr t" for m t
  proof -
    from t next_state have "dfs_runs m e now g ?opts ?s' = Inr t"
      using dfs_runs_add[of "Suc n" m e now g ?opts "dfs_start start"] by simp
    then have "?out t" using out
    proof (rule dfs_runs_invariant)
      fix u u'
      assume "?out u" and "dfs_step e now g ?opts u = Inr u'"
      then show "?out u'" by (rule keep)
    qed
    then show ?thesis by (auto simp: dfs_step_def Let_def)
  qed
  have result: "current \<notin> set (TraversalResult.Path r) \<and> node \<notin> set (Nodes r)
                \<and> (\<forall>x \<in> set (Nodes r). \<not> stop_at ?opts x)
                \<and> (\<forall>p \<in> set (TraversalResult.Path r).
                      \<exists>x. BadgerEngine_GetNode e now g p = Inr x \<and> \<not> stop_at ?opts x)"
    if r: "DepthFirstSearch e now g start options = Inr r" for r
  proof -
    from r obtain sf where loop: "dfs_loop e now g ?opts (dfs_start start) = Inr sf"
      and rf: "r = \<lparr>Nodes = dfs_nodes sf, Edges = dfs_edges sf, Path = dfs_path sf,
                    Distance = int (length (dfs_path sf)) - 1\<rparr>"
      by (cases "dfs_loop e now g ?opts (dfs_start start)") (auto simp: DepthFirstSearch_def)
    from loop start_inv have inv: "dfs_inv e now g ?opts sf" by (rule dfs_loop_inv)
    from next_state have "dfs_loop e now g ?opts (dfs_start start) = dfs_loop e now g ?opts ?s'"
      by (rule dfs_runs_loop)
    with loop have "dfs_loop e now g ?opts ?s' = Inr sf" by simp
    then have "?out sf" using out
    proof (rule dfs_loop_invariant)
      fix u u'
      assume "?out u" and "dfs_step e now g ?opts u = Inr u'"
      then show "?out u'" by (rule keep)
    qed
    with inv rf show ?thesis by (simp add: dfs_inv_def)
  qed
  from step later result show ?thesis by blast
qed

theorem C4_witness:
  "dfs_runs (Suc 0) chain_engine (at_time 10 0 0) ''g'' (resolve_options (Some stop_at_b)) (dfs_start ''a'')
     = Inr \<lparr>dfs_visited = {''a''}, dfs_nodes = [mkNode ''a'' ''service'' None],
            dfs_edges = [mkEdge ''ab'' ''calls'' ''a'' ''b'' None], dfs_path = [''a''],
            dfs_stack = [(''b'', 1)]\<rparr>
   \<and> BadgerEngine_GetNode chain_engine (at_time 10 0 0) ''g'' ''b'' = Inr (mkNode ''b'' ''service'' None)
   \<and> stop_at (resolve_options (Some stop_at_b)) (mkNode ''b'' ''service'' None)
   \<and> dfs_step chain_engine (at_time 10 0 0) ''g'' (resolve_options (Some stop_at_b))
        \<lparr>dfs_visited = {''a''}, dfs_nodes = [mkNode ''a'' ''service'' None],
         dfs_edges = [mkEdge ''ab'' ''calls'' ''a'' ''b'' None], dfs_path = [''a''],
         dfs_stack = [(''b'', 1)]\<rparr>
       = Inr \<lparr>dfs_visited = {''b'', ''a''}, dfs_nodes = [mkNode ''a'' ''service'' None],
              dfs_edges = [mkEdge ''ab'' ''calls'' ''a'' ''b'' None], dfs_path = [''a''],
              dfs_stack = []\<rparr>
   \<and> DepthFirstSearch chain_engine (at_time 10 0 0) ''g'' ''a'' (Some stop_at_b)
       = Inr \<lparr>Nodes = [mkNode ''a'' ''service'' None],
               Edges = [mkEdge ''ab'' ''calls'' ''a'' ''b'' None],
               Path = [''a''], Distance = 0\<rparr>
   \<and> ''b'' \<notin> set [''a'']
   \<and> mkNode ''b'' ''service'' None \<notin> set [mkNode ''a'' ''service'' None]"
proof -
  let ?s = "\<lparr>dfs_visited = {''a''}, dfs_nodes = [mkNode ''a'' ''service'' None],
            dfs_edges = [mkEdge ''ab'' ''calls'' ''a'' ''b'' None], dfs_path = [''a''],
            dfs_stack = [(''b'', 1)]\<rparr>"
  have h1: "dfs_runs (Suc 0) chain_engine (at_time 10 0 0) ''g'' (resolve_options (Some stop_at_b))
              (dfs_start ''a'') = Inr ?s"
    by code_simp
  have h2: "dfs_stack ?s \<noteq> []" by simp
  have h3: "last (dfs_stack ?s) = (''b'', 1)" by simp
  have h4: "''b'' \<notin> dfs_visited ?s" by simp
  have h5: "\<not> depth_exceeded (resolve_options (Some stop_at_b)) 1" by code_simp
  have h6: "BadgerEngine_GetNode chain_engine (at_time 10 0 0) ''g'' ''b''
              = Inr (mkNode ''b'' ''service'' None)"
    by code_simp
  have h7: "stop_at (resolve_options (Some stop_at_b)) (mkNode ''b'' ''service'' None)"
    by code_simp
  have h8: "DepthFirstSearch chain_engine (at_time 10 0 0) ''g'' ''a'' (Some stop_at_b)
       = Inr \<lparr>Nodes = [mkNode ''a'' ''service'' None],
               Edges = [mkEdge ''ab'' ''calls'' ''a'' ''b'' None],
               Path = [''a''], Distance = 0\<rparr>"
    by code_simp
  from C4_stop_node_left_out [OF h1 h2 h3 h4 h5 h6 h7] h8
  have "dfs_step chain_engine (at_time 10 0 0) ''g'' (resolve_options (Some stop_at_b)) ?s
          = Inr (?s\<lparr>dfs_stack := butlast (dfs_stack ?s),
                     dfs_visited := insert ''b'' (dfs_visited ?s)\<rparr>)
        \<and> ''b'' \<notin> set [''a'']
        \<and> mkNode ''b'' ''service'' None \<notin> set [mkNode ''a'' ''service'' None]"
    by simp
  with h1 h6 h7 h8 show ?thesis by simp
qed
text \<open>
  C2 (on the linear chain, \<open>ANALYSIS.SHORTESTPATH g a c FORMAT detailed\<close> returns the
  count and the arrow-notation path). \<open>AllShortestPaths\<close> finds the path, but
  \<open>buildMultiPathResponse\<close> fetches its nodes from the graph named by the path's
  \<open>FromNodeID\<close>, here \<open>a\<close>, instead of \<open>g\<close>: the handler returns an error.
\<close>

theorem C2_detailed_shortest_path_is_an_error:
  "AllShortestPaths chain_engine (at_time 10 0 0) ''g'' ''a'' ''c''
     = Some (Inr [\<lparr>FromNodeID = ''a'', ToNodeID = ''c'', Path = [''a'', ''b'', ''c''],
                    Length = 2, Edges = [''ab'', ''bc'']\<rparr>])
   \<and> handleShortestPath chain_engine (at_time 10 0 0) [''g'', ''a'', ''c'', ''FORMAT'', ''detailed'']
       = Some (Inl (Errorf ''failed to get node a: node not found: a''))"
  by code_simp

text \<open>
  C5 (\<open>GetShortestPath\<close> returns a path of minimal length and \<open>AllShortestPaths\<close>
  every forward path of that length). In \<open>AllShortestPaths\<close> the paths of the
  successors of one node are made by \<open>append\<close> on the same slice; when that slice has
  spare capacity, as a path of three nodes has, they share its array and the last
  successor overwrites the others. From \<open>s\<close> to \<open>t\<close> the only path is s, a, b, t, which
  \<open>GetShortestPath\<close> returns; \<open>AllShortestPaths\<close> returns s, a, b, x instead.
\<close>

theorem C5_all_shortest_paths_returns_wrong_path:
  "GetShortestPath asp_engine (at_time 10 0 0) ''g'' ''s'' ''t'' None
     = Some (Inr \<lparr>FromNodeID = ''s'', ToNodeID = ''t'', Path = [''s'', ''a'', ''b'', ''t''],
                   Length = 3, Edges = [''e1'', ''e2'', ''e3'']\<rparr>)
   \<and> AllShortestPaths asp_engine (at_time 10 0 0) ''g'' ''s'' ''t''
       = Some (Inr [\<lparr>FromNodeID = ''s'', ToNodeID = ''t'', Path = [''s'', ''a'', ''b'', ''x''],
                      Length = 3, Edges = [''e1'', ''e2'', ''e3'']\<rparr>])"
  by code_simp

text \<open>
  C6 (\<open>HasCycles\<close> returns true exactly when the edges that pass the filter contain a
  directed cycle, and \<open>FindAllCycles\<close> a non-empty list exactly then). The only edge
  of the graph of the nodes \<open>a\<close> and \<open>a:b\<close> runs from \<open>a:b\<close> to \<open>a\<close>, so
  no walk along its edges comes back to where it started. The search from \<open>a\<close> asks the
  store for the outgoing edges of \<open>a\<close>; the prefix \<open>ni:out:g:a:\<close> that is scanned
  is also a prefix of the index key \<open>ni:out:g:a:b:e1\<close> of the node \<open>a:b\<close>, so the
  edge \<open>e1\<close> is among them. \<open>findCyclesRecursive\<close> goes to the target of every edge
  it is given and does not compare the source of the edge with the node it stands on
  (\<open>DepthFirstSearch\<close> and \<open>GetShortestPath\<close> make that comparison). It takes
  \<open>e1\<close> for an edge from \<open>a\<close> to \<open>a\<close>: \<open>FindAllCycles\<close> returns the cycle
  \<open>a, a\<close> and \<open>HasCycles\<close> returns true.
\<close>

theorem C6_cycle_reported_in_acyclic_graph:
  "BadgerEngine_ListNodes lone_edge_engine (at_time 10 0 0) ''g''
      = Inr [mkNode ''a'' ''service'' None, mkNode ''a:b'' ''service'' None]
   \<and> BadgerEngine_ListEdges lone_edge_engine (at_time 10 0 0) ''g''
      = Inr [mkEdge ''e1'' ''calls'' ''a:b'' ''a'' None]
   \<and> FindAllCycles lone_edge_engine (at_time 10 0 0) ''g'' None = Inr [[''a'', ''a'']]
   \<and> HasCycles lone_edge_engine (at_time 10 0 0) ''g'' None = Inr True"
  by code_simp

end
